theory Spec2Isabelle
  imports Complex_Main
begin

section \<open>JavaScript values and strings\<close>

text \<open>
  The client is TypeScript; its types are erased at run time and the validators test
  their arguments with \<^verbatim>\<open>typeof\<close>, so caller-supplied data is modelled as
  untyped JavaScript values. A finite number is the rational it denotes (every double
  is one); comparison and \<^verbatim>\<open>Number.isInteger\<close> depend on nothing else.
  Strings are lists of 8-bit code units; an object is the list of its own properties.
\<close>

datatype jsnum = Fin rat | NaN | PosInfinity | NegInfinity

datatype jsval =
    JUndefined
  | JNull
  | JBool bool
  | JNum jsnum
  | JStr string
  | JArr "jsval list"
  | JObj "(string \<times> jsval) list"

fun typeof :: "jsval \<Rightarrow> string" where
  "typeof JUndefined = ''undefined''"
| "typeof JNull = ''object''"
| "typeof (JBool b) = ''boolean''"
| "typeof (JNum n) = ''number''"
| "typeof (JStr s) = ''string''"
| "typeof (JArr xs) = ''object''"
| "typeof (JObj kvs) = ''object''"

text \<open>ToBoolean: what \<^verbatim>\<open>!x\<close> and \<^verbatim>\<open>x || y\<close> test.\<close>

fun truthy :: "jsval \<Rightarrow> bool" where
  "truthy JUndefined = False"
| "truthy JNull = False"
| "truthy (JBool b) = b"
| "truthy (JNum (Fin r)) = (r \<noteq> 0)"
| "truthy (JNum NaN) = False"
| "truthy (JNum PosInfinity) = True"
| "truthy (JNum NegInfinity) = True"
| "truthy (JStr s) = (s \<noteq> [])"
| "truthy (JArr xs) = True"
| "truthy (JObj kvs) = True"

text \<open>\<^verbatim>\<open>a ?? b\<close> and \<^verbatim>\<open>a || b\<close>.\<close>

definition nullish :: "jsval \<Rightarrow> bool" where
  "nullish v = (v = JUndefined \<or> v = JNull)"

definition coalesce :: "jsval \<Rightarrow> jsval \<Rightarrow> jsval" where
  "coalesce a b = (if nullish a then b else a)"

definition or_else :: "jsval \<Rightarrow> jsval \<Rightarrow> jsval" where
  "or_else a b = (if truthy a then a else b)"

text \<open>\<^verbatim>\<open>a || b || undefined\<close> on strings that may be \<^verbatim>\<open>undefined\<close>: the empty string is falsy.\<close>

definition truthy_string :: "string option \<Rightarrow> bool" where
  "truthy_string s = (case s of None \<Rightarrow> False | Some x \<Rightarrow> x \<noteq> [])"

definition first_truthy :: "string option \<Rightarrow> string option \<Rightarrow> string option" where
  "first_truthy a b = (if truthy_string a then a else if truthy_string b then b else None)"

text \<open>Number comparison and \<^verbatim>\<open>Number.isInteger\<close>; every comparison with NaN is false.\<close>

fun num_less :: "jsnum \<Rightarrow> jsnum \<Rightarrow> bool" where
  "num_less NaN y = False"
| "num_less x NaN = False"
| "num_less (Fin a) (Fin b) = (a < b)"
| "num_less (Fin a) PosInfinity = True"
| "num_less (Fin a) NegInfinity = False"
| "num_less PosInfinity y = False"
| "num_less NegInfinity NegInfinity = False"
| "num_less NegInfinity y = True"

fun Number_isInteger :: "jsnum \<Rightarrow> bool" where
  "Number_isInteger (Fin r) = (rat_of_int \<lfloor>r\<rfloor> = r)"
| "Number_isInteger x = False"

text \<open>
  \<^verbatim>\<open>String.prototype.trim\<close> strips white space and line terminators; below 256
  these are the code units 9 to 13, 32 and 160.
\<close>

definition isWhiteSpace :: "char \<Rightarrow> bool" where
  "isWhiteSpace c =
     (c \<in> set [CHR 0x09, CHR 0x0A, CHR 0x0B, CHR 0x0C, CHR 0x0D, CHR 0x20, CHR 0xA0])"

definition trim :: "string \<Rightarrow> string" where
  "trim s = rev (dropWhile isWhiteSpace (rev (dropWhile isWhiteSpace s)))"

definition startsWith :: "string \<Rightarrow> string \<Rightarrow> bool" where
  "startsWith s p = (take (length p) s = p)"

fun includes_str :: "string \<Rightarrow> string \<Rightarrow> bool" where
  "includes_str [] p = (p = [])"
| "includes_str (c # cs) p = (startsWith (c # cs) p \<or> includes_str cs p)"

text \<open>\<^verbatim>\<open>s.replace(/\/$/, "")\<close>: one slash at the very end of the string is removed.\<close>

definition strip_trailing_slash :: "string \<Rightarrow> string" where
  "strip_trailing_slash s = (if s \<noteq> [] \<and> last s = CHR ''/'' then butlast s else s)"

text \<open>\<^verbatim>\<open>xs.join(sep)\<close> on an array of strings.\<close>

fun join :: "string \<Rightarrow> string list \<Rightarrow> string" where
  "join sep [] = []"
| "join sep [x] = x"
| "join sep (x # y # ys) = x @ sep @ join sep (y # ys)"

text \<open>The decimal digits of a status code, as a template literal prints it.\<close>

fun string_of_nat :: "nat \<Rightarrow> string" where
  "string_of_nat n =
     (if n < 10 then [''0123456789'' ! n]
      else string_of_nat (n div 10) @ [''0123456789'' ! (n mod 10)])"

declare string_of_nat.simps [simp del]

section \<open>types/models.ts and types/errors.ts\<close>

definition ALLOWED_HTTP_METHODS :: "string list" where
  "ALLOWED_HTTP_METHODS = [''GET'', ''POST'', ''PUT'', ''PATCH'', ''DELETE'', ''HEAD'', ''OPTIONS'']"

datatype CueyErrorCode =
  UNAUTHORIZED | NOT_FOUND | BAD_REQUEST | VALIDATION_ERROR | INTERNAL_SERVER_ERROR

text \<open>The fields every \<^verbatim>\<open>CueyError\<close> carries.\<close>

record CueyError =
  name :: string
  message :: string
  code :: CueyErrorCode
  statusCode :: nat
  details :: jsval

text \<open>
  Everything a call of this client can throw: a built-in \<^verbatim>\<open>Error\<close> or
  \<^verbatim>\<open>TypeError\<close>, or an instance of one of the five subclasses of
  \<^verbatim>\<open>CueyError\<close>. A \<^verbatim>\<open>ValidationError\<close> has the extra field
  \<^verbatim>\<open>validationErrors\<close>.
\<close>

datatype thrown =
    Error string
  | TypeError
  | UnauthorizedError CueyError
  | NotFoundError CueyError
  | BadRequestError CueyError
  | ValidationError CueyError jsval
  | InternalServerError CueyError

definition new_UnauthorizedError :: "string \<Rightarrow> jsval \<Rightarrow> thrown" where
  "new_UnauthorizedError msg det = UnauthorizedError
     \<lparr>name = ''UnauthorizedError'', message = msg, code = UNAUTHORIZED, statusCode = 401,
      details = det\<rparr>"

definition new_NotFoundError :: "string \<Rightarrow> jsval \<Rightarrow> thrown" where
  "new_NotFoundError msg det = NotFoundError
     \<lparr>name = ''NotFoundError'', message = msg, code = NOT_FOUND, statusCode = 404,
      details = det\<rparr>"

definition new_BadRequestError :: "string \<Rightarrow> jsval \<Rightarrow> thrown" where
  "new_BadRequestError msg det = BadRequestError
     \<lparr>name = ''BadRequestError'', message = msg, code = BAD_REQUEST, statusCode = 400,
      details = det\<rparr>"

definition new_ValidationError :: "string \<Rightarrow> jsval \<Rightarrow> thrown" where
  "new_ValidationError msg validationErrors = ValidationError
     \<lparr>name = ''ValidationError'', message = msg, code = VALIDATION_ERROR, statusCode = 400,
      details = validationErrors\<rparr> validationErrors"

definition new_InternalServerError :: "string \<Rightarrow> jsval \<Rightarrow> thrown" where
  "new_InternalServerError msg det = InternalServerError
     \<lparr>name = ''InternalServerError'', message = msg, code = INTERNAL_SERVER_ERROR,
      statusCode = 500, details = det\<rparr>"

text \<open>Membership in the typed taxonomy (\<^verbatim>\<open>instanceof CueyError\<close>).\<close>

fun is_CueyError :: "thrown \<Rightarrow> bool" where
  "is_CueyError (Error m) = False"
| "is_CueyError TypeError = False"
| "is_CueyError t = True"

text \<open>
  The \<^verbatim>\<open>CueyError\<close> fields of a thrown value, when it has them; a built-in error
  has neither \<^verbatim>\<open>code\<close> nor \<^verbatim>\<open>statusCode\<close>.
\<close>

fun as_CueyError :: "thrown \<Rightarrow> CueyError option" where
  "as_CueyError (Error m) = None"
| "as_CueyError TypeError = None"
| "as_CueyError (UnauthorizedError e) = Some e"
| "as_CueyError (NotFoundError e) = Some e"
| "as_CueyError (BadRequestError e) = Some e"
| "as_CueyError (ValidationError e v) = Some e"
| "as_CueyError (InternalServerError e) = Some e"

fun is_ValidationError :: "thrown \<Rightarrow> bool" where
  "is_ValidationError (ValidationError e v) = True"
| "is_ValidationError t = False"

text \<open>Sequencing of steps that may throw.\<close>

definition and_then :: "thrown + 'a \<Rightarrow> ('a \<Rightarrow> thrown + 'b) \<Rightarrow> thrown + 'b" where
  "and_then m f = (case m of Inl e \<Rightarrow> Inl e | Inr x \<Rightarrow> f x)"

text \<open>
  Property read \<^verbatim>\<open>v.k\<close> for the property names this client reads
  (\<^verbatim>\<open>error\<close>, \<^verbatim>\<open>message\<close>, \<^verbatim>\<open>code\<close>, \<^verbatim>\<open>details\<close>, \<^verbatim>\<open>data\<close>,
  \<^verbatim>\<open>maxRetries\<close>, \<^verbatim>\<open>backoffMs\<close>, \<^verbatim>\<open>backoffType\<close>; none is inherited from a
  prototype): reading from \<^verbatim>\<open>undefined\<close> or \<^verbatim>\<open>null\<close> raises a TypeError, a
  primitive or an array has no such property, an object is looked up.
  \<^verbatim>\<open>v?.k\<close> short-circuits to \<^verbatim>\<open>undefined\<close> on a nullish \<^verbatim>\<open>v\<close>.
\<close>

definition own_property :: "(string \<times> jsval) list \<Rightarrow> string \<Rightarrow> jsval" where
  "own_property kvs k = (case map_of kvs k of None \<Rightarrow> JUndefined | Some v \<Rightarrow> v)"

fun get_prop :: "jsval \<Rightarrow> string \<Rightarrow> thrown + jsval" where
  "get_prop JUndefined k = Inl TypeError"
| "get_prop JNull k = Inl TypeError"
| "get_prop (JObj kvs) k = Inr (own_property kvs k)"
| "get_prop v k = Inr JUndefined"

definition get_prop_opt :: "jsval \<Rightarrow> string \<Rightarrow> thrown + jsval" where
  "get_prop_opt v k = (if nullish v then Inr JUndefined else get_prop v k)"

section \<open>The platform\<close>

text \<open>
  What the client takes from its JavaScript runtime and from files that are not part of
  the sources: the URL and Date built-ins, the conversion of numbers and of objects to
  strings, JSON and query-string encoding, \<^verbatim>\<open>fetch\<close>, the global \<^verbatim>\<open>process\<close>, and the constant
  \<^verbatim>\<open>CUEY_API_BASE_URL\<close> of \<^verbatim>\<open>constants.ts\<close>. They are parameters of the model.
  An instant is its number of milliseconds since the epoch.
\<close>

datatype process = ProcessUndefined | ProcessEnvUndefined | ProcessEnv "string \<Rightarrow> string option"

datatype rejection = RejectedError string | RejectedOther

record Request =
  url :: string
  http_method :: string
  http_headers :: "(string \<times> string) list"
  http_body :: "string option"

text \<open>
  A response as \<^verbatim>\<open>request\<close> reads it: the status, the \<^verbatim>\<open>content-type\<close> header
  (\<^verbatim>\<open>null\<close> when absent), what \<^verbatim>\<open>response.json()\<close> settles to (the
  parsed body, or a rejection when the body is not JSON) and the text
  \<^verbatim>\<open>response.text()\<close> resolves to.
\<close>

record Response =
  status :: nat
  content_type :: "string option"
  body_json :: "rejection + jsval"
  body_text :: string

definition ok :: "Response \<Rightarrow> bool" where
  "ok response = (200 \<le> status response \<and> status response \<le> 299)"

record runtime =
  new_URL :: "string \<Rightarrow> bool"
  Date_parse :: "string \<Rightarrow> int option"
  Date_now :: int
  toISOString :: "int \<Rightarrow> string"
  Number_toString :: "jsnum \<Rightarrow> string"
  Object_toString :: "jsval \<Rightarrow> thrown + string"
  JSON_stringify :: "jsval \<Rightarrow> string"
  URLSearchParams_toString :: "(string \<times> string) list \<Rightarrow> string"
  fetch :: "Request \<Rightarrow> thrown + Response"
  global_process :: process
  CUEY_API_BASE_URL :: string

text \<open>
  ToString, which a template literal and the constructor of \<^verbatim>\<open>Error\<close> apply to a
  value. On a primitive value it cannot fail. An object or an array is converted by its
  own \<^verbatim>\<open>toString\<close> and \<^verbatim>\<open>valueOf\<close> methods (\<open>Object_toString\<close>), and the
  conversion throws a TypeError when neither gives a primitive value, as for
  \<^verbatim>\<open>{toString: null}\<close>.
\<close>

fun template :: "runtime \<Rightarrow> jsval \<Rightarrow> thrown + string" where
  "template rt JUndefined = Inr ''undefined''"
| "template rt JNull = Inr ''null''"
| "template rt (JBool b) = Inr (if b then ''true'' else ''false'')"
| "template rt (JNum n) = Inr (Number_toString rt n)"
| "template rt (JStr s) = Inr s"
| "template rt (JArr xs) = Object_toString rt (JArr xs)"
| "template rt (JObj kvs) = Object_toString rt (JObj kvs)"

section \<open>utils/http.ts\<close>

record HttpClient =
  getApiKey :: "runtime \<Rightarrow> thrown + string"

record RequestOptions =
  opt_method :: "string option"
  opt_body :: jsval
  opt_headers :: "(string \<times> string) list option"

text \<open>Object spread \<^verbatim>\<open>{...a, ...b}\<close> on string-valued properties.\<close>

fun assign :: "(string \<times> string) list \<Rightarrow> string \<Rightarrow> string \<Rightarrow> (string \<times> string) list" where
  "assign [] k v = [(k, v)]"
| "assign ((k', v') # kvs) k v = (if k' = k then (k, v) # kvs else (k', v') # assign kvs k v)"

definition spread :: "(string \<times> string) list \<Rightarrow> (string \<times> string) list \<Rightarrow> (string \<times> string) list" where
  "spread a b = foldl (\<lambda>acc (k, v). assign acc k v) a b"

text \<open>
  \<^verbatim>\<open>handleError\<close> never returns: every path throws. Both reads of
  \<^verbatim>\<open>errorData.error\<close> in a branch give the same value, so it is read once. The
  arguments are evaluated first; then the constructor of \<^verbatim>\<open>Error\<close> converts the
  message to a string.
\<close>

definition handleError :: "runtime \<Rightarrow> nat \<Rightarrow> jsval \<Rightarrow> thrown + jsval" where
  "handleError rt status_code errorData =
     (if status_code = 401 then
        and_then (get_prop errorData ''error'') (\<lambda>err.
        and_then (get_prop_opt err ''message'') (\<lambda>msg.
        and_then (get_prop_opt err ''details'') (\<lambda>det.
        and_then (template rt (or_else msg (JStr ''Unauthorized. Invalid or missing API key.'')))
          (\<lambda>text_of_msg. Inl (new_UnauthorizedError text_of_msg det)))))
      else if status_code = 404 then
        and_then (get_prop errorData ''error'') (\<lambda>err.
        and_then (get_prop_opt err ''message'') (\<lambda>msg.
        and_then (get_prop_opt err ''details'') (\<lambda>det.
        and_then (template rt (or_else msg (JStr ''Resource not found.'')))
          (\<lambda>text_of_msg. Inl (new_NotFoundError text_of_msg det)))))
      else if status_code = 400 then
        and_then (get_prop errorData ''error'') (\<lambda>err.
        and_then (get_prop_opt err ''code'') (\<lambda>err_code.
          if err_code = JStr ''VALIDATION_ERROR'' then
            and_then (get_prop_opt err ''message'') (\<lambda>msg.
            and_then (get_prop_opt err ''details'') (\<lambda>det.
            and_then (template rt (or_else msg (JStr ''Validation error'')))
              (\<lambda>text_of_msg. Inl (new_ValidationError text_of_msg det))))
          else
            and_then (get_prop_opt err ''message'') (\<lambda>msg.
            and_then (get_prop_opt err ''details'') (\<lambda>det.
            and_then (template rt (or_else msg (JStr ''Bad request'')))
              (\<lambda>text_of_msg. Inl (new_BadRequestError text_of_msg det))))))
      else if status_code \<ge> 500 then
        and_then (get_prop errorData ''error'') (\<lambda>err.
        and_then (get_prop_opt err ''message'') (\<lambda>msg.
        and_then (get_prop_opt err ''details'') (\<lambda>det.
        and_then (template rt (or_else msg (JStr ''An internal server error occurred.'')))
          (\<lambda>text_of_msg. Inl (new_InternalServerError text_of_msg det)))))
      else
        and_then (get_prop errorData ''error'') (\<lambda>err.
        and_then (get_prop_opt err ''details'') (\<lambda>det.
          Inl (new_InternalServerError (''Unexpected error: '' @ string_of_nat status_code) det))))"

text \<open>The body of a response, as lines 88 to 102 of \<^verbatim>\<open>request\<close> parse it.\<close>

definition parse_body :: "Response \<Rightarrow> thrown + jsval" where
  "parse_body response =
     (if (case content_type response of None \<Rightarrow> False
          | Some contentType \<Rightarrow> includes_str contentType ''application/json'')
      then (case body_json response of
              Inr data \<Rightarrow> Inr data
            | Inl error \<Rightarrow> Inl (new_InternalServerError
                (''Failed to parse JSON response: '' @
                   (case error of RejectedError m \<Rightarrow> m | RejectedOther \<Rightarrow> ''Unknown error''))
                JUndefined))
      else Inr (JStr (body_text response)))"

definition HttpClient_request ::
  "runtime \<Rightarrow> HttpClient \<Rightarrow> string \<Rightarrow> RequestOptions \<Rightarrow> thrown + jsval" where
  "HttpClient_request rt this path options =
     and_then (getApiKey this rt) (\<lambda>apiKey.
       let url = CUEY_API_BASE_URL rt @ path;
           headers = spread
             [(''Content-Type'', ''application/json''), (''Authorization'', ''Bearer '' @ apiKey)]
             (case opt_headers options of None \<Rightarrow> [] | Some hs \<Rightarrow> hs);
           body = (if opt_body options \<noteq> JUndefined
                   then Some (JSON_stringify rt (opt_body options)) else None)
       in and_then
            (fetch rt \<lparr>url = url,
               http_method = (case opt_method options of
                                None \<Rightarrow> ''GET'' | Some m \<Rightarrow> if m = [] then ''GET'' else m),
               http_headers = headers, http_body = body\<rparr>)
            (\<lambda>response.
               and_then (parse_body response) (\<lambda>data.
                 if \<not> ok response then handleError rt (status response) data
                 else Inr data)))"

definition HttpClient_get :: "runtime \<Rightarrow> HttpClient \<Rightarrow> string \<Rightarrow> thrown + jsval" where
  "HttpClient_get rt this path = HttpClient_request rt this path
     \<lparr>opt_method = Some ''GET'', opt_body = JUndefined, opt_headers = None\<rparr>"

definition HttpClient_post :: "runtime \<Rightarrow> HttpClient \<Rightarrow> string \<Rightarrow> jsval \<Rightarrow> thrown + jsval" where
  "HttpClient_post rt this path body = HttpClient_request rt this path
     \<lparr>opt_method = Some ''POST'', opt_body = body, opt_headers = None\<rparr>"


definition HttpClient_delete :: "runtime \<Rightarrow> HttpClient \<Rightarrow> string \<Rightarrow> thrown + jsval" where
  "HttpClient_delete rt this path = HttpClient_request rt this path
     \<lparr>opt_method = Some ''DELETE'', opt_body = JUndefined, opt_headers = None\<rparr>"

section \<open>resources/base-resource.ts\<close>

record BaseResource =
  http :: HttpClient
  webhookBaseUrl :: "string option"

text \<open>
  The validators. Where a validator goes on after \<^verbatim>\<open>typeof x !== "string"\<close> has
  been excluded, the model takes the string out of the value; the remaining case of
  that distinction cannot occur.
\<close>

text \<open>A string that may be \<^verbatim>\<open>undefined\<close>, as a value.\<close>

definition js_of_string_option :: "string option \<Rightarrow> jsval" where
  "js_of_string_option s = (case s of None \<Rightarrow> JUndefined | Some x \<Rightarrow> JStr x)"

definition validateAndNormalizeWebhookUrl ::
  "runtime \<Rightarrow> BaseResource \<Rightarrow> jsval \<Rightarrow> thrown + string" where
  "validateAndNormalizeWebhookUrl rt this webhookUrl =
     (if \<not> truthy webhookUrl \<or> typeof webhookUrl \<noteq> ''string'' then
        Inl (new_ValidationError ''webhook_url is required and must be a string''
          (JObj [(''field'', JStr ''webhook_url''), (''value'', webhookUrl)]))
      else case webhookUrl of
        JStr s \<Rightarrow>
          let trimmed = trim s in
          if startsWith trimmed ''http://'' \<or> startsWith trimmed ''https://'' then
            (if new_URL rt trimmed then Inr trimmed
             else Inl (new_ValidationError
               (''Invalid webhook URL: \"'' @ trimmed @ ''\" is not a valid URL'')
               (JObj [(''field'', JStr ''webhook_url''), (''value'', JStr trimmed)])))
          else if startsWith trimmed ''/'' then
            (if \<not> truthy_string (webhookBaseUrl this) then
               Inl (new_ValidationError
                 (''Relative webhook URL provided but no baseUrl is configured. '' @
                  ''Either provide a full URL (starting with http:// or https://) '' @
                  ''or configure baseUrl in CueyConfig or set CUEY_BASE_URL environment variable.'')
                 (JObj [(''field'', JStr ''webhook_url''), (''value'', JStr trimmed),
                        (''baseUrl'', js_of_string_option (webhookBaseUrl this))]))
             else case webhookBaseUrl this of
                 Some b \<Rightarrow>
                   let baseUrl = strip_trailing_slash b;
                       fullUrl = baseUrl @ trimmed
                   in if new_URL rt fullUrl then Inr fullUrl
                      else Inl (new_ValidationError
                        (''Invalid webhook URL: Cannot combine baseUrl \"'' @ b @
                         ''\" with path \"'' @ trimmed @ ''\"'')
                        (JObj [(''field'', JStr ''webhook_url''), (''value'', JStr trimmed),
                               (''baseUrl'', JStr b)]))
               | None \<Rightarrow> Inl TypeError)
          else
            Inl (new_ValidationError
              (''Invalid webhook URL: \"'' @ trimmed @
               ''\" must be a full URL (starting with http:// or https://) or a relative path (starting with /)'')
              (JObj [(''field'', JStr ''webhook_url''), (''value'', JStr trimmed)]))
      | _ \<Rightarrow> Inl TypeError)"

text \<open>
  One numeric field of a retry configuration: the condition under which
  \<^verbatim>\<open>validateRetryConfig\<close> throws for a field that is not \<^verbatim>\<open>undefined\<close>.
\<close>

definition not_integer_between :: "jsval \<Rightarrow> rat \<Rightarrow> rat \<Rightarrow> bool" where
  "not_integer_between v lo hi =
     (typeof v \<noteq> ''number'' \<or>
      (case v of
         JNum n \<Rightarrow> num_less n (Fin lo) \<or> num_less (Fin hi) n \<or> \<not> Number_isInteger n
       | _ \<Rightarrow> True))"

definition validateRetryConfig :: "jsval \<Rightarrow> thrown + unit" where
  "validateRetryConfig retryConfig =
     (if retryConfig = JNull \<or> retryConfig = JUndefined then Inr ()
      else if typeof retryConfig \<noteq> ''object'' then
        Inl (new_ValidationError ''retry_config must be an object or null''
          (JObj [(''field'', JStr ''retry_config''), (''value'', retryConfig)]))
      else
        and_then (get_prop retryConfig ''maxRetries'') (\<lambda>maxRetries.
          if maxRetries \<noteq> JUndefined \<and> not_integer_between maxRetries 1 10 then
            Inl (new_ValidationError ''retry_config.maxRetries must be an integer between 1 and 10''
              (JObj [(''field'', JStr ''retry_config.maxRetries''), (''value'', maxRetries)]))
          else
        and_then (get_prop retryConfig ''backoffMs'') (\<lambda>backoffMs.
          if backoffMs \<noteq> JUndefined \<and> not_integer_between backoffMs 100 5000 then
            Inl (new_ValidationError
              ''retry_config.backoffMs must be an integer between 100 and 5000''
              (JObj [(''field'', JStr ''retry_config.backoffMs''), (''value'', backoffMs)]))
          else
        and_then (get_prop retryConfig ''backoffType'') (\<lambda>backoffType.
          if backoffType \<noteq> JUndefined \<and> backoffType \<noteq> JStr ''exponential'' \<and>
             backoffType \<noteq> JStr ''linear'' then
            Inl (new_ValidationError
              ''retry_config.backoffType must be either \"exponential\" or \"linear\"''
              (JObj [(''field'', JStr ''retry_config.backoffType''), (''value'', backoffType)]))
          else Inr ()))))"

text \<open>
  The loop of \<^verbatim>\<open>validateHeaders\<close> over \<^verbatim>\<open>Object.entries(headers)\<close>; a key of
  an entry is always a string.
\<close>

fun validateHeaders_entries :: "(string \<times> jsval) list \<Rightarrow> thrown + unit" where
  "validateHeaders_entries [] = Inr ()"
| "validateHeaders_entries ((key, v) # entries) =
     (if trim key = [] then
        Inl (new_ValidationError ''All header keys must be non-empty strings''
          (JObj [(''field'', JStr ''headers''), (''key'', JStr key), (''value'', v)]))
      else if typeof v \<noteq> ''string'' then
        Inl (new_ValidationError (''Header \"'' @ key @ ''\" must have a string value'')
          (JObj [(''field'', JStr ''headers''), (''key'', JStr key), (''value'', v)]))
      else validateHeaders_entries entries)"

fun Array_isArray :: "jsval \<Rightarrow> bool" where
  "Array_isArray (JArr xs) = True"
| "Array_isArray v = False"

definition validateHeaders :: "jsval \<Rightarrow> thrown + unit" where
  "validateHeaders hs =
     (if hs = JNull \<or> hs = JUndefined then Inr ()
      else if typeof hs \<noteq> ''object'' \<or> Array_isArray hs then
        Inl (new_ValidationError ''headers must be an object or null''
          (JObj [(''field'', JStr ''headers''), (''value'', hs)]))
      else case hs of
          JObj entries \<Rightarrow> validateHeaders_entries entries
        | _ \<Rightarrow> Inr ())"

definition validateMethod :: "runtime \<Rightarrow> jsval \<Rightarrow> thrown + jsval" where
  "validateMethod rt m =
     (if m = JUndefined then Inr JUndefined
      else if m \<notin> set (map JStr ALLOWED_HTTP_METHODS) then
        and_then (template rt m) (\<lambda>text_of_m.
          Inl (new_ValidationError
            (''Invalid HTTP method: \"'' @ text_of_m @ ''\". Must be one of: '' @
             join '', '' ALLOWED_HTTP_METHODS)
            (JObj [(''field'', JStr ''method''), (''value'', m),
                   (''allowedMethods'', JArr (map JStr ALLOWED_HTTP_METHODS))])))
      else Inr m)"

text \<open>
  \<^verbatim>\<open>new Date(trimmed)\<close> does not throw on a string, so the \<^verbatim>\<open>catch\<close> around it
  is never entered; an unparseable string gives a date whose time is NaN
  (\<open>Date_parse\<close> gives \<open>None\<close>). Dates compare by their time values.
\<close>

definition validateScheduledAt :: "runtime \<Rightarrow> jsval \<Rightarrow> thrown + unit" where
  "validateScheduledAt rt scheduledAt =
     (if \<not> truthy scheduledAt \<or> typeof scheduledAt \<noteq> ''string'' then
        Inl (new_ValidationError ''scheduled_at is required and must be a string''
          (JObj [(''field'', JStr ''scheduled_at''), (''value'', scheduledAt)]))
      else case scheduledAt of
        JStr s \<Rightarrow>
          let trimmed = trim s in
          if trimmed = [] then
            Inl (new_ValidationError ''scheduled_at cannot be empty''
              (JObj [(''field'', JStr ''scheduled_at''), (''value'', scheduledAt)]))
          else (case Date_parse rt trimmed of
              None \<Rightarrow>
                Inl (new_ValidationError
                  (''Invalid scheduled_at: \"'' @ trimmed @ ''\" is not a valid date'')
                  (JObj [(''field'', JStr ''scheduled_at''), (''value'', JStr trimmed)]))
            | Some date \<Rightarrow>
                let now = Date_now rt in
                if date \<le> now then
                  Inl (new_ValidationError
                    (''scheduled_at must be in the future. Received: \"'' @ trimmed @ ''\"'')
                    (JObj [(''field'', JStr ''scheduled_at''), (''value'', JStr trimmed),
                           (''now'', JStr (toISOString rt now))]))
                else Inr ())
      | _ \<Rightarrow> Inl TypeError)"

section \<open>resources/events.ts and resources/crons.ts\<close>

text \<open>
  The input objects. \<^verbatim>\<open>CreateEventInput\<close> and \<^verbatim>\<open>UpdateEventInput\<close> have the
  same fields, as have \<^verbatim>\<open>CreateCronInput\<close> and \<^verbatim>\<open>UpdateCronInput\<close>; the
  fields the two resources share are declared once. An absent property is
  \<^verbatim>\<open>undefined\<close>.
\<close>

record WebhookInput =
  webhook_url :: jsval
  "method" :: jsval
  headers :: jsval
  payload :: jsval
  retry_config :: jsval

record EventInput = WebhookInput +
  scheduled_at :: jsval

record CronInput = WebhookInput +
  cron_expression :: jsval
  timezone :: jsval
  is_active :: jsval

text \<open>
  The object a resource sends as the body of its request. A property that is
  \<^verbatim>\<open>undefined\<close> stands for an absent one: \<^verbatim>\<open>JSON.stringify\<close> leaves both out.
\<close>

definition object_of_EventInput :: "EventInput \<Rightarrow> jsval" where
  "object_of_EventInput i = JObj
     [(''webhook_url'', webhook_url i), (''method'', method i), (''scheduled_at'', scheduled_at i),
      (''headers'', headers i), (''payload'', payload i), (''retry_config'', retry_config i)]"

definition object_of_CronInput :: "CronInput \<Rightarrow> jsval" where
  "object_of_CronInput i = JObj
     [(''webhook_url'', webhook_url i), (''method'', method i),
      (''cron_expression'', cron_expression i), (''timezone'', timezone i),
      (''headers'', headers i), (''payload'', payload i), (''retry_config'', retry_config i),
      (''is_active'', is_active i)]"

record EventsQueryParams =
  page :: "jsnum option"
  limit :: "jsnum option"
  q_status :: "string option"
  cron_id :: "string option"

text \<open>\<^verbatim>\<open>queryParams.set(k, v)\<close> for the parameters that are not \<^verbatim>\<open>undefined\<close>.\<close>

definition query_entry :: "string \<Rightarrow> string option \<Rightarrow> (string \<times> string) list" where
  "query_entry k v = (case v of None \<Rightarrow> [] | Some x \<Rightarrow> [(k, x)])"

definition EventsResource_list ::
  "runtime \<Rightarrow> BaseResource \<Rightarrow> EventsQueryParams option \<Rightarrow> thrown + jsval" where
  "EventsResource_list rt this params =
     (let queryParams = (case params of
            None \<Rightarrow> []
          | Some ps \<Rightarrow>
              query_entry ''page'' (map_option (Number_toString rt) (page ps)) @
              query_entry ''limit'' (map_option (Number_toString rt) (limit ps)) @
              query_entry ''status'' (q_status ps) @
              query_entry ''cron_id'' (cron_id ps));
          queryString = URLSearchParams_toString rt queryParams;
          path = ''/api/v1/events'' @ (if queryString \<noteq> [] then ''?'' @ queryString else [])
      in HttpClient_get rt (http this) path)"

definition EventsResource_get :: "runtime \<Rightarrow> BaseResource \<Rightarrow> string \<Rightarrow> thrown + jsval" where
  "EventsResource_get rt this ident =
     and_then (HttpClient_get rt (http this) (''/api/v1/events/'' @ ident)) (\<lambda>response.
       get_prop response ''data'')"

text \<open>
  The validation that opens \<^verbatim>\<open>create\<close> (lines 91 to 100 of events.ts): it ends in
  \<^verbatim>\<open>validatedInput\<close> or in the first error thrown.
\<close>

definition EventsResource_create_validatedInput ::
  "runtime \<Rightarrow> BaseResource \<Rightarrow> EventInput \<Rightarrow> thrown + EventInput" where
  "EventsResource_create_validatedInput rt this input =
     and_then (validateScheduledAt rt (scheduled_at input)) (\<lambda>_.
     and_then (validateMethod rt (coalesce (method input) (JStr ''POST''))) (\<lambda>m.
     and_then (validateAndNormalizeWebhookUrl rt this (webhook_url input)) (\<lambda>u.
       let validatedInput = input\<lparr>method := m, webhook_url := JStr u\<rparr> in
       and_then (validateRetryConfig (coalesce (retry_config validatedInput) JNull)) (\<lambda>_.
       and_then (validateHeaders (coalesce (headers validatedInput) JNull)) (\<lambda>_.
         Inr validatedInput)))))"

definition EventsResource_create :: "runtime \<Rightarrow> BaseResource \<Rightarrow> EventInput \<Rightarrow> thrown + jsval" where
  "EventsResource_create rt this input =
     and_then (EventsResource_create_validatedInput rt this input) (\<lambda>validatedInput.
     and_then (HttpClient_post rt (http this) ''/api/v1/events''
                 (object_of_EventInput validatedInput)) (\<lambda>response.
       get_prop response ''data''))"



definition EventsResource_delete :: "runtime \<Rightarrow> BaseResource \<Rightarrow> string \<Rightarrow> thrown + unit" where
  "EventsResource_delete rt this ident =
     and_then (HttpClient_delete rt (http this) (''/api/v1/events/'' @ ident)) (\<lambda>_. Inr ())"

definition CronsResource_create_validatedInput ::
  "runtime \<Rightarrow> BaseResource \<Rightarrow> CronInput \<Rightarrow> thrown + CronInput" where
  "CronsResource_create_validatedInput rt this input =
     and_then (validateMethod rt (coalesce (method input) (JStr ''POST''))) (\<lambda>m.
     and_then (validateAndNormalizeWebhookUrl rt this (webhook_url input)) (\<lambda>u.
       let validatedInput = input\<lparr>method := m, webhook_url := JStr u\<rparr> in
       and_then (validateRetryConfig (coalesce (retry_config validatedInput) JNull)) (\<lambda>_.
       and_then (validateHeaders (coalesce (headers validatedInput) JNull)) (\<lambda>_.
         Inr validatedInput))))"

definition CronsResource_create :: "runtime \<Rightarrow> BaseResource \<Rightarrow> CronInput \<Rightarrow> thrown + jsval" where
  "CronsResource_create rt this input =
     and_then (CronsResource_create_validatedInput rt this input) (\<lambda>validatedInput.
     and_then (HttpClient_post rt (http this) ''/api/v1/crons''
                 (object_of_CronInput validatedInput)) (\<lambda>response.
       get_prop response ''data''))"



section \<open>client.ts\<close>

record CueyConfig =
  baseUrl :: "string option"
  apiKey :: "string option"

text \<open>
  \<^verbatim>\<open>typeof process !== "undefined" && typeof process.env !== "undefined" && process.env.K\<close>:
  the variable, or a falsy value (\<open>None\<close> here) when there is no process, no
  environment or no such variable.
\<close>

definition process_env :: "process \<Rightarrow> string \<Rightarrow> string option" where
  "process_env p k =
     (case p of ProcessUndefined \<Rightarrow> None | ProcessEnvUndefined \<Rightarrow> None | ProcessEnv env \<Rightarrow> env k)"

text \<open>
  The closure \<^verbatim>\<open>getApiKey\<close> of the constructor: it captures \<^verbatim>\<open>config\<close> and reads
  the environment each time it is called.
\<close>

definition Cuey_getApiKey :: "CueyConfig \<Rightarrow> runtime \<Rightarrow> thrown + string" where
  "Cuey_getApiKey config rt =
     (case first_truthy (apiKey config) (process_env (global_process rt) ''CUEY_API_KEY'') of
        None \<Rightarrow> Inl (Error
          ''API key is required. Provide it via config.apiKey or set the CUEY_API_KEY environment variable.'')
      | Some k \<Rightarrow> Inr k)"

record Cuey =
  crons :: BaseResource
  events :: BaseResource
  cuey_http :: HttpClient
  cuey_webhookBaseUrl :: "string option"

text \<open>
  \<^verbatim>\<open>new Cuey(config)\<close>; \<open>None\<close> is the call without an argument, whose
  \<^verbatim>\<open>config\<close> defaults to the empty object. The result is a sum so that a throwing
  constructor could be told from a returning one.
\<close>

definition Cuey_constructor :: "runtime \<Rightarrow> CueyConfig option \<Rightarrow> thrown + Cuey" where
  "Cuey_constructor rt config_arg =
     (let config = (case config_arg of
                      None \<Rightarrow> \<lparr>baseUrl = None, apiKey = None\<rparr> | Some c \<Rightarrow> c);
          base = first_truthy (baseUrl config) (process_env (global_process rt) ''CUEY_BASE_URL'');
          httpClient = \<lparr>getApiKey = Cuey_getApiKey config\<rparr>
      in Inr \<lparr>crons = \<lparr>http = httpClient, webhookBaseUrl = base\<rparr>,
              events = \<lparr>http = httpClient, webhookBaseUrl = base\<rparr>,
              cuey_http = httpClient, cuey_webhookBaseUrl = base\<rparr>)"

definition Cuey_schedule :: "runtime \<Rightarrow> Cuey \<Rightarrow> EventInput \<Rightarrow> thrown + jsval" where
  "Cuey_schedule rt this input = EventsResource_create rt (events this) input"

definition Cuey_repeat :: "runtime \<Rightarrow> Cuey \<Rightarrow> CronInput \<Rightarrow> thrown + jsval" where
  "Cuey_repeat rt this input = CronsResource_create rt (crons this) input"

section \<open>A concrete platform for the examples\<close>

text \<open>
  The examples below run on this platform. Its URL parser strips leading and trailing
  C0 control characters and spaces before it parses, as the platform's does, and of the
  remaining strings accepts two sample URLs only; its clock stands at
  2026-01-01T00:00:00.000Z; its date parser knows three instants; its \<^verbatim>\<open>fetch\<close>
  answers every request with 200 and a JSON object; no environment variable is set.
  Its conversion of numbers to strings covers the integers. Its conversion of objects
  is the one of objects whose own properties are data, as this model has them: one that
  has no own property \<^verbatim>\<open>toString\<close> inherits the method that gives
  \<^verbatim>\<open>[object Object]\<close>; one that has such a property has a \<^verbatim>\<open>toString\<close> that
  cannot be called, its inherited \<^verbatim>\<open>valueOf\<close> returns the object itself, and the
  conversion throws a TypeError. An array is converted by \<^verbatim>\<open>join\<close>: its elements
  are converted from left to right, \<^verbatim>\<open>undefined\<close> and \<^verbatim>\<open>null\<close> to the empty
  string, and joined with commas.
\<close>

definition C0_control_or_space :: "char \<Rightarrow> bool" where
  "C0_control_or_space c = (of_char c \<le> (32::nat))"

definition example_new_URL :: "string \<Rightarrow> bool" where
  "example_new_URL s =
     (rev (dropWhile C0_control_or_space (rev (dropWhile C0_control_or_space s)))
        \<in> set [''http://example.com/webhook'', ''https://example.com/webhook''])"

definition example_Date_parse :: "string \<Rightarrow> int option" where
  "example_Date_parse s =
     (if s = ''2020-01-01T00:00:00.000Z'' then Some 1577836800000
      else if s = ''2026-01-01T00:00:00.000Z'' then Some 1767225600000
      else if s = ''2030-01-01T00:00:00.000Z'' then Some 1893456000000
      else None)"

fun example_Number_toString :: "jsnum \<Rightarrow> string" where
  "example_Number_toString NaN = ''NaN''"
| "example_Number_toString PosInfinity = ''Infinity''"
| "example_Number_toString NegInfinity = ''-Infinity''"
| "example_Number_toString (Fin r) =
     (if rat_of_int \<lfloor>r\<rfloor> \<noteq> r then []
      else if 0 \<le> r then string_of_nat (nat \<lfloor>r\<rfloor>)
      else ''-'' @ string_of_nat (nat (- \<lfloor>r\<rfloor>)))"

fun collect :: "(thrown + string) list \<Rightarrow> thrown + string list" where
  "collect [] = Inr []"
| "collect (Inl e # rs) = Inl e"
| "collect (Inr s # rs) = (case collect rs of Inl e \<Rightarrow> Inl e | Inr ss \<Rightarrow> Inr (s # ss))"

fun example_ToString :: "jsval \<Rightarrow> thrown + string" where
  "example_ToString JUndefined = Inr ''undefined''"
| "example_ToString JNull = Inr ''null''"
| "example_ToString (JBool b) = Inr (if b then ''true'' else ''false'')"
| "example_ToString (JNum n) = Inr (example_Number_toString n)"
| "example_ToString (JStr s) = Inr s"
| "example_ToString (JArr xs) =
     (case collect (map (\<lambda>x. if nullish x then Inr [] else example_ToString x) xs) of
        Inl e \<Rightarrow> Inl e
      | Inr ss \<Rightarrow> Inr (join '','' ss))"
| "example_ToString (JObj kvs) =
     (if map_of kvs ''toString'' = None then Inr ''[object Object]'' else Inl TypeError)"

definition example_response :: Response where
  "example_response =
     \<lparr>status = 200, content_type = Some ''application/json; charset=utf-8'',
      body_json = Inr (JObj [(''data'', JObj [(''id'', JStr ''evt_1'')])]), body_text = []\<rparr>"

definition example_runtime :: runtime where
  "example_runtime =
     \<lparr>new_URL = example_new_URL,
      Date_parse = example_Date_parse,
      Date_now = 1767225600000,
      toISOString = (\<lambda>t. if t = 1767225600000 then ''2026-01-01T00:00:00.000Z'' else []),
      Number_toString = example_Number_toString,
      Object_toString = example_ToString,
      JSON_stringify = (\<lambda>v. ''{}''),
      URLSearchParams_toString = (\<lambda>ps. join ''&'' (map (\<lambda>(k, v). k @ ''='' @ v) ps)),
      fetch = (\<lambda>req. Inr example_response),
      global_process = ProcessEnv (\<lambda>k. None),
      CUEY_API_BASE_URL = ''https://cuey.example''\<rparr>"

text \<open>The same platform with both environment variables set.\<close>

definition example_env_runtime :: runtime where
  "example_env_runtime = example_runtime
     \<lparr>global_process := ProcessEnv (\<lambda>k.
        if k = ''CUEY_API_KEY'' then Some ''env-key''
        else if k = ''CUEY_BASE_URL'' then Some ''https://env.example''
        else None)\<rparr>"

definition example_http :: HttpClient where
  "example_http = \<lparr>getApiKey = (\<lambda>rt. Inr ''test-api-key'')\<rparr>"

definition example_resource :: "string option \<Rightarrow> BaseResource" where
  "example_resource b = \<lparr>http = example_http, webhookBaseUrl = b\<rparr>"

definition example_event :: EventInput where
  "example_event =
     \<lparr>webhook_url = JStr ''https://example.com/webhook'', method = JUndefined,
      headers = JUndefined, payload = JUndefined, retry_config = JUndefined,
      scheduled_at = JStr ''2030-01-01T00:00:00.000Z''\<rparr>"

definition example_cron :: CronInput where
  "example_cron =
     \<lparr>webhook_url = JStr ''https://example.com/webhook'', method = JUndefined,
      headers = JUndefined, payload = JUndefined, retry_config = JUndefined,
      cron_expression = JStr ''0 0 * * *'', timezone = JUndefined, is_active = JUndefined\<rparr>"

section \<open>Auxiliary facts\<close>

lemma and_then_Inl [simp]: "and_then (Inl e) f = Inl e"
  by (simp add: and_then_def)

lemma and_then_Inr [simp]: "and_then (Inr x) f = f x"
  by (simp add: and_then_def)

lemmas example_defs = example_runtime_def example_resource_def example_http_def
  example_new_URL_def example_Date_parse_def example_response_def C0_control_or_space_def
  example_event_def example_env_runtime_def example_cron_def

lemma startsWith_Nil [simp]: "startsWith [] p = (p = [])"
  by (auto simp: startsWith_def)

lemma trim_Nil [simp]: "trim [] = []"
  by (simp add: trim_def)

text \<open>Trimming keeps a prefix that neither begins nor ends with white space.\<close>

lemma trim_append_prefix:
  assumes "p \<noteq> []" "\<not> isWhiteSpace (hd p)" "\<not> isWhiteSpace (last p)"
  shows "\<exists>xs. trim (p @ r) = p @ xs"
proof -
  from assms have d1: "dropWhile isWhiteSpace (p @ r) = p @ r"
    by (cases p) auto
  from assms have d2: "dropWhile isWhiteSpace (rev p) = rev p"
    by (cases p rule: rev_cases) auto
  have "\<exists>ys. dropWhile isWhiteSpace (rev r @ rev p) = ys @ rev p"
    using d2 by (simp add: dropWhile_append)
  then obtain ys where "dropWhile isWhiteSpace (rev (p @ r)) = ys @ rev p"
    by auto
  then have "trim (p @ r) = p @ rev ys"
    by (simp add: trim_def d1)
  then show ?thesis by blast
qed

lemma startsWith_trim:
  assumes "startsWith w p" "p \<noteq> []" "\<not> isWhiteSpace (hd p)" "\<not> isWhiteSpace (last p)"
  shows "startsWith (trim w) p"
proof -
  from assms(1) have "w = p @ drop (length p) w"
    unfolding startsWith_def by (metis append_take_drop_id)
  then obtain r where "w = p @ r" ..
  with trim_append_prefix [OF assms(2-4), of r] show ?thesis
    by (auto simp: startsWith_def)
qed

lemma startsWith_trim_http:
  "startsWith w ''http://'' \<Longrightarrow> startsWith (trim w) ''http://''"
  by (rule startsWith_trim) (simp_all add: isWhiteSpace_def)

lemma startsWith_trim_https:
  "startsWith w ''https://'' \<Longrightarrow> startsWith (trim w) ''https://''"
  by (rule startsWith_trim) (simp_all add: isWhiteSpace_def)

lemma startsWith_trim_slash:
  "startsWith w ''/'' \<Longrightarrow> startsWith (trim w) ''/''"
  by (rule startsWith_trim) (simp_all add: isWhiteSpace_def)

lemma slash_not_scheme:
  "startsWith t ''/'' \<Longrightarrow> \<not> startsWith t ''http://'' \<and> \<not> startsWith t ''https://''"
  by (cases t) (auto simp: startsWith_def)

section \<open>The webhook URL normalizer\<close>

lemma validateAndNormalizeWebhookUrl_throws_ValidationError:
  "validateAndNormalizeWebhookUrl rt this v = Inl e \<Longrightarrow> is_ValidationError e"
  by (cases v)
     (auto simp: validateAndNormalizeWebhookUrl_def new_ValidationError_def truthy_string_def
           Let_def split: if_splits option.splits)

text \<open>
  Claim C2 says that an input which starts with \<^verbatim>\<open>http://\<close> or \<^verbatim>\<open>https://\<close> and
  parses as a URL is returned unchanged. The code trims the input first and returns
  the trimmed string: an input with a trailing space starts with \<^verbatim>\<open>http://\<close> and
  parses, yet what comes back is the input without the space.
\<close>

theorem absolute_url_not_returned_unchanged:
  "startsWith ''http://example.com/webhook '' ''http://'' \<and>
   new_URL example_runtime ''http://example.com/webhook '' \<and>
   validateAndNormalizeWebhookUrl example_runtime (example_resource None)
     (JStr ''http://example.com/webhook '') = Inr ''http://example.com/webhook'' \<and>
   validateAndNormalizeWebhookUrl example_runtime (example_resource None)
     (JStr ''http://example.com/webhook '') \<noteq> Inr ''http://example.com/webhook ''"
  by (simp add: validateAndNormalizeWebhookUrl_def example_defs trim_def isWhiteSpace_def
        startsWith_def)

text \<open>
  C2, amended: for every input string that starts with \<^verbatim>\<open>http://\<close> or
  \<^verbatim>\<open>https://\<close> and whose white-space-trimmed form parses as a URL, the normalizer
  returns the trimmed input (which is the input itself when it carries no trailing
  white space).
\<close>

theorem absolute_url_returned_trimmed:
  assumes "startsWith w ''http://'' \<or> startsWith w ''https://''"
    and "new_URL rt (trim w)"
  shows "validateAndNormalizeWebhookUrl rt this (JStr w) = Inr (trim w) \<and>
    (validateAndNormalizeWebhookUrl rt this (JStr w) = Inr w \<longleftrightarrow> trim w = w)"
proof -
  from assms(1) have t: "startsWith (trim w) ''http://'' \<or> startsWith (trim w) ''https://''"
    using startsWith_trim_http startsWith_trim_https by blast
  from assms(1) have "w \<noteq> []" by auto
  with t assms(2) have "validateAndNormalizeWebhookUrl rt this (JStr w) = Inr (trim w)"
    by (simp add: validateAndNormalizeWebhookUrl_def Let_def)
  then show ?thesis by auto
qed

theorem absolute_url_returned_trimmed_witness:
  "startsWith ''https://example.com/webhook '' ''https://'' \<and>
   new_URL example_runtime (trim ''https://example.com/webhook '') \<and>
   trim ''https://example.com/webhook '' = ''https://example.com/webhook'' \<and>
   validateAndNormalizeWebhookUrl example_runtime (example_resource None)
     (JStr ''https://example.com/webhook '') = Inr ''https://example.com/webhook''"
proof -
  have h1: "startsWith ''https://example.com/webhook '' ''https://''"
    by (simp add: startsWith_def)
  have h2: "trim ''https://example.com/webhook '' = ''https://example.com/webhook''"
    by (simp add: trim_def isWhiteSpace_def)
  have h3: "new_URL example_runtime (trim ''https://example.com/webhook '')"
    by (simp add: h2 example_defs)
  from absolute_url_returned_trimmed [OF disjI2 [OF h1] h3, of "example_resource None"]
  show ?thesis using h1 h2 h3 by simp
qed

text \<open>
  Claim C3 says that for every path starting with \<^verbatim>\<open>/\<close> and every configured base
  URL the normalizer returns the base (one trailing slash stripped) followed by the path,
  and that the result parses as a URL. The code parses the concatenation and throws
  when that fails, as with the base \<^verbatim>\<open>example.com\<close>, which has no scheme; and it
  appends the trimmed path, not the path.
\<close>

theorem relative_url_not_always_resolved:
  "startsWith ''/webhook'' ''/'' \<and>
   validateAndNormalizeWebhookUrl example_runtime (example_resource (Some ''example.com''))
     (JStr ''/webhook'') =
   Inl (new_ValidationError
     ''Invalid webhook URL: Cannot combine baseUrl \"example.com\" with path \"/webhook\"''
     (JObj [(''field'', JStr ''webhook_url''), (''value'', JStr ''/webhook''),
            (''baseUrl'', JStr ''example.com'')])) \<and>
   startsWith ''/webhook '' ''/'' \<and>
   validateAndNormalizeWebhookUrl example_runtime
     (example_resource (Some ''https://example.com/'')) (JStr ''/webhook '') =
   Inr ''https://example.com/webhook'' \<and>
   strip_trailing_slash ''https://example.com/'' @ ''/webhook '' \<noteq> ''https://example.com/webhook''"
  by (simp add: validateAndNormalizeWebhookUrl_def example_defs trim_def isWhiteSpace_def
        startsWith_def truthy_string_def strip_trailing_slash_def)

text \<open>
  C3, amended: for every path \<open>p\<close> starting with \<^verbatim>\<open>/\<close> and every non-empty
  configured base URL \<open>b\<close>, the normalizer returns \<open>b\<close> with its single trailing
  slash stripped followed by the trimmed \<open>p\<close> when this concatenation parses as a URL,
  and throws a ValidationError naming the base and the path when it does not.
\<close>

theorem relative_url_resolved_when_parsable:
  assumes "startsWith p ''/''" and "webhookBaseUrl this = Some b" and "b \<noteq> []"
  shows "validateAndNormalizeWebhookUrl rt this (JStr p) =
    (if new_URL rt (strip_trailing_slash b @ trim p)
     then Inr (strip_trailing_slash b @ trim p)
     else Inl (new_ValidationError
        (''Invalid webhook URL: Cannot combine baseUrl \"'' @ b @
         ''\" with path \"'' @ trim p @ ''\"'')
        (JObj [(''field'', JStr ''webhook_url''), (''value'', JStr (trim p)),
               (''baseUrl'', JStr b)])))"
proof -
  from assms(1) have t: "startsWith (trim p) ''/''" by (rule startsWith_trim_slash)
  from assms(1) have "p \<noteq> []" by auto
  with t slash_not_scheme [OF t] assms(2,3) show ?thesis
    by (simp add: validateAndNormalizeWebhookUrl_def truthy_string_def Let_def)
qed

theorem relative_url_resolved_when_parsable_witness:
  "startsWith ''/webhook'' ''/'' \<and>
   webhookBaseUrl (example_resource (Some ''https://example.com/'')) = Some ''https://example.com/'' \<and>
   validateAndNormalizeWebhookUrl example_runtime
     (example_resource (Some ''https://example.com/'')) (JStr ''/webhook'') =
   Inr ''https://example.com/webhook''"
proof -
  have h1: "startsWith ''/webhook'' ''/''"
    by (simp add: startsWith_def)
  have h2: "webhookBaseUrl (example_resource (Some ''https://example.com/'')) =
      Some ''https://example.com/''"
    by (simp add: example_defs)
  have h3: "''https://example.com/'' \<noteq> []" by simp
  from relative_url_resolved_when_parsable [OF h1 h2 h3, of example_runtime]
  show ?thesis using h1 h2
    by (simp add: example_defs trim_def isWhiteSpace_def strip_trailing_slash_def)
qed

text \<open>
  Claim C4 lists the cases in which the normalizer throws, and says they are the only
  ones: among them, that the input starts with neither \<^verbatim>\<open>http://\<close>,
  \<^verbatim>\<open>https://\<close> nor \<^verbatim>\<open>/\<close>. The code tests the trimmed input: an absolute URL
  after a leading space starts with none of the three, and is accepted.
\<close>

theorem padded_url_not_rejected:
  "\<not> startsWith '' https://example.com/webhook'' ''http://'' \<and>
   \<not> startsWith '' https://example.com/webhook'' ''https://'' \<and>
   \<not> startsWith '' https://example.com/webhook'' ''/'' \<and>
   validateAndNormalizeWebhookUrl example_runtime (example_resource None)
     (JStr '' https://example.com/webhook'') = Inr ''https://example.com/webhook''"
  by (simp add: validateAndNormalizeWebhookUrl_def example_defs trim_def isWhiteSpace_def
        startsWith_def)

text \<open>
  C4, amended: the normalizer throws, and then always a ValidationError, in exactly
  these cases: the input is not a string or is empty; the trimmed input starts with
  neither \<^verbatim>\<open>http://\<close>, \<^verbatim>\<open>https://\<close> nor \<^verbatim>\<open>/\<close>; the trimmed input starts with
  \<^verbatim>\<open>/\<close> and no non-empty base URL is configured; or the trimmed absolute URL,
  respectively the base URL followed by the trimmed path, fails to parse.
\<close>

theorem webhook_url_rejected_iff:
  "(typeof v \<noteq> ''string'' \<longrightarrow> isl (validateAndNormalizeWebhookUrl rt this v)) \<and>
   (isl (validateAndNormalizeWebhookUrl rt this (JStr s)) \<longleftrightarrow>
      s = [] \<or>
      (\<not> startsWith (trim s) ''http://'' \<and> \<not> startsWith (trim s) ''https://'' \<and>
       \<not> startsWith (trim s) ''/'') \<or>
      (startsWith (trim s) ''/'' \<and> \<not> truthy_string (webhookBaseUrl this)) \<or>
      ((startsWith (trim s) ''http://'' \<or> startsWith (trim s) ''https://'') \<and>
       \<not> new_URL rt (trim s)) \<or>
      (startsWith (trim s) ''/'' \<and>
       (case webhookBaseUrl this of None \<Rightarrow> False
        | Some b \<Rightarrow> b \<noteq> [] \<and> \<not> new_URL rt (strip_trailing_slash b @ trim s)))) \<and>
   (\<forall>e. validateAndNormalizeWebhookUrl rt this v = Inl e \<longrightarrow> is_ValidationError e)"
proof (intro conjI)
  show "typeof v \<noteq> ''string'' \<longrightarrow> isl (validateAndNormalizeWebhookUrl rt this v)"
    by (simp add: validateAndNormalizeWebhookUrl_def)
next
  show "isl (validateAndNormalizeWebhookUrl rt this (JStr s)) \<longleftrightarrow>
      s = [] \<or>
      (\<not> startsWith (trim s) ''http://'' \<and> \<not> startsWith (trim s) ''https://'' \<and>
       \<not> startsWith (trim s) ''/'') \<or>
      (startsWith (trim s) ''/'' \<and> \<not> truthy_string (webhookBaseUrl this)) \<or>
      ((startsWith (trim s) ''http://'' \<or> startsWith (trim s) ''https://'') \<and>
       \<not> new_URL rt (trim s)) \<or>
      (startsWith (trim s) ''/'' \<and>
       (case webhookBaseUrl this of None \<Rightarrow> False
        | Some b \<Rightarrow> b \<noteq> [] \<and> \<not> new_URL rt (strip_trailing_slash b @ trim s)))"
    using slash_not_scheme [of "trim s"]
    by (auto simp: validateAndNormalizeWebhookUrl_def truthy_string_def Let_def
             split: option.splits)
next
  show "\<forall>e. validateAndNormalizeWebhookUrl rt this v = Inl e \<longrightarrow> is_ValidationError e"
    using validateAndNormalizeWebhookUrl_throws_ValidationError by blast
qed

theorem webhook_url_rejected_iff_witness:
  "typeof (JNum (Fin 5)) \<noteq> ''string'' \<and>
   isl (validateAndNormalizeWebhookUrl example_runtime (example_resource None) (JNum (Fin 5))) \<and>
   isl (validateAndNormalizeWebhookUrl example_runtime (example_resource None) (JStr [])) \<and>
   isl (validateAndNormalizeWebhookUrl example_runtime (example_resource None)
          (JStr ''example.com/webhook'')) \<and>
   isl (validateAndNormalizeWebhookUrl example_runtime (example_resource None)
          (JStr ''not-a-url'')) \<and>
   isl (validateAndNormalizeWebhookUrl example_runtime (example_resource None)
          (JStr ''/webhook'')) \<and>
   isl (validateAndNormalizeWebhookUrl example_runtime (example_resource None)
          (JStr ''https://exa mple.com'')) \<and>
   \<not> isl (validateAndNormalizeWebhookUrl example_runtime (example_resource None)
          (JStr ''https://example.com/webhook''))"
  using webhook_url_rejected_iff [of "JNum (Fin 5)" example_runtime "example_resource None" "[]"]
    webhook_url_rejected_iff [of JNull example_runtime "example_resource None"
      "''example.com/webhook''"]
    webhook_url_rejected_iff [of JNull example_runtime "example_resource None" "''not-a-url''"]
    webhook_url_rejected_iff [of JNull example_runtime "example_resource None" "''/webhook''"]
    webhook_url_rejected_iff [of JNull example_runtime "example_resource None"
      "''https://exa mple.com''"]
    webhook_url_rejected_iff [of JNull example_runtime "example_resource None"
      "''https://example.com/webhook''"]
  by (simp add: example_defs trim_def isWhiteSpace_def startsWith_def truthy_string_def)

section \<open>The retry configuration\<close>

lemma Number_isInteger_iff: "Number_isInteger (Fin r) \<longleftrightarrow> r \<in> \<int>"
  by (auto simp: Ints_def)

lemma not_integer_between_iff:
  "(v \<noteq> JUndefined \<and> not_integer_between v (rat_of_int lo) (rat_of_int hi)) \<longleftrightarrow>
   v \<notin> insert JUndefined ((\<lambda>k. JNum (Fin (rat_of_int k))) ` {lo..hi})"
proof (cases v)
  case (JNum n)
  show ?thesis
  proof (cases n)
    case (Fin r)
    have "(\<not> r < rat_of_int lo \<and> \<not> rat_of_int hi < r \<and> rat_of_int \<lfloor>r\<rfloor> = r) \<longleftrightarrow>
          (\<exists>k\<in>{lo..hi}. r = rat_of_int k)"
    proof
      assume a: "\<not> r < rat_of_int lo \<and> \<not> rat_of_int hi < r \<and> rat_of_int \<lfloor>r\<rfloor> = r"
      then have "rat_of_int lo \<le> rat_of_int \<lfloor>r\<rfloor>" "rat_of_int \<lfloor>r\<rfloor> \<le> rat_of_int hi"
        by auto
      then have "\<lfloor>r\<rfloor> \<in> {lo..hi}" by simp
      with a show "\<exists>k\<in>{lo..hi}. r = rat_of_int k" by metis
    next
      assume "\<exists>k\<in>{lo..hi}. r = rat_of_int k"
      then show "\<not> r < rat_of_int lo \<and> \<not> rat_of_int hi < r \<and> rat_of_int \<lfloor>r\<rfloor> = r"
        by auto
    qed
    with JNum Fin show ?thesis
      by (auto simp: not_integer_between_def)
  qed (use JNum in \<open>auto simp: not_integer_between_def\<close>)
qed (auto simp: not_integer_between_def)

lemma maxRetries_range:
  "(v \<noteq> JUndefined \<and> not_integer_between v 1 10) \<longleftrightarrow>
   v \<notin> insert JUndefined ((\<lambda>k. JNum (Fin (rat_of_int k))) ` {1..10})"
  using not_integer_between_iff [of v 1 10] by simp

lemma backoffMs_range:
  "(v \<noteq> JUndefined \<and> not_integer_between v 100 5000) \<longleftrightarrow>
   v \<notin> insert JUndefined ((\<lambda>k. JNum (Fin (rat_of_int k))) ` {100..5000})"
  using not_integer_between_iff [of v 100 5000] by simp

lemma JNum_in_integer_range:
  "JNum (Fin r) \<in> (\<lambda>k. JNum (Fin (rat_of_int k))) ` {lo..hi} \<longleftrightarrow>
   r \<in> \<int> \<and> rat_of_int lo \<le> r \<and> r \<le> rat_of_int hi"
  by (auto simp: Ints_def image_iff)

text \<open>
  Claim C5: \<^verbatim>\<open>validateRetryConfig\<close> accepts \<^verbatim>\<open>null\<close> and \<^verbatim>\<open>undefined\<close>; of an
  object it checks each field only if it is present (not \<^verbatim>\<open>undefined\<close>):
  \<^verbatim>\<open>maxRetries\<close> must be an integer from 1 to 10, \<^verbatim>\<open>backoffMs\<close> an integer from
  100 to 5000, \<^verbatim>\<open>backoffType\<close> one of the strings \<^verbatim>\<open>exponential\<close> and
  \<^verbatim>\<open>linear\<close>. The object passes exactly when every present field is in bounds, so
  an omitted field is no violation; the first violation, in this order, raises a
  ValidationError whose details name the field and carry the rejected value; every
  object with the three fields in bounds passes.
\<close>

theorem validateRetryConfig_contract:
  "validateRetryConfig JNull = Inr () \<and> validateRetryConfig JUndefined = Inr () \<and>
   (validateRetryConfig (JObj kvs) = Inr () \<longleftrightarrow>
      own_property kvs ''maxRetries''
        \<in> insert JUndefined ((\<lambda>k. JNum (Fin (rat_of_int k))) ` {1..10}) \<and>
      own_property kvs ''backoffMs''
        \<in> insert JUndefined ((\<lambda>k. JNum (Fin (rat_of_int k))) ` {100..5000}) \<and>
      own_property kvs ''backoffType'' \<in> {JUndefined, JStr ''exponential'', JStr ''linear''}) \<and>
   (own_property kvs ''maxRetries''
        \<notin> insert JUndefined ((\<lambda>k. JNum (Fin (rat_of_int k))) ` {1..10}) \<longrightarrow>
    validateRetryConfig (JObj kvs) =
      Inl (new_ValidationError ''retry_config.maxRetries must be an integer between 1 and 10''
        (JObj [(''field'', JStr ''retry_config.maxRetries''),
               (''value'', own_property kvs ''maxRetries'')]))) \<and>
   (own_property kvs ''maxRetries''
        \<in> insert JUndefined ((\<lambda>k. JNum (Fin (rat_of_int k))) ` {1..10}) \<and>
    own_property kvs ''backoffMs''
        \<notin> insert JUndefined ((\<lambda>k. JNum (Fin (rat_of_int k))) ` {100..5000}) \<longrightarrow>
    validateRetryConfig (JObj kvs) =
      Inl (new_ValidationError ''retry_config.backoffMs must be an integer between 100 and 5000''
        (JObj [(''field'', JStr ''retry_config.backoffMs''),
               (''value'', own_property kvs ''backoffMs'')]))) \<and>
   (own_property kvs ''maxRetries''
        \<in> insert JUndefined ((\<lambda>k. JNum (Fin (rat_of_int k))) ` {1..10}) \<and>
    own_property kvs ''backoffMs''
        \<in> insert JUndefined ((\<lambda>k. JNum (Fin (rat_of_int k))) ` {100..5000}) \<and>
    own_property kvs ''backoffType'' \<notin> {JUndefined, JStr ''exponential'', JStr ''linear''} \<longrightarrow>
    validateRetryConfig (JObj kvs) =
      Inl (new_ValidationError
        ''retry_config.backoffType must be either \"exponential\" or \"linear\"''
        (JObj [(''field'', JStr ''retry_config.backoffType''),
               (''value'', own_property kvs ''backoffType'')]))) \<and>
   (1 \<le> m \<and> m \<le> 10 \<and> 100 \<le> b \<and> b \<le> 5000 \<and> t \<in> {''exponential'', ''linear''} \<longrightarrow>
    validateRetryConfig (JObj [(''maxRetries'', JNum (Fin (rat_of_int m))),
      (''backoffMs'', JNum (Fin (rat_of_int b))), (''backoffType'', JStr t)]) = Inr ())"
proof -
  have unfold: "validateRetryConfig (JObj kvs) =
     (if own_property kvs ''maxRetries''
           \<notin> insert JUndefined ((\<lambda>k. JNum (Fin (rat_of_int k))) ` {1..10}) then
        Inl (new_ValidationError ''retry_config.maxRetries must be an integer between 1 and 10''
          (JObj [(''field'', JStr ''retry_config.maxRetries''),
                 (''value'', own_property kvs ''maxRetries'')]))
      else if own_property kvs ''backoffMs''
           \<notin> insert JUndefined ((\<lambda>k. JNum (Fin (rat_of_int k))) ` {100..5000}) then
        Inl (new_ValidationError ''retry_config.backoffMs must be an integer between 100 and 5000''
          (JObj [(''field'', JStr ''retry_config.backoffMs''),
                 (''value'', own_property kvs ''backoffMs'')]))
      else if own_property kvs ''backoffType'' \<notin> {JUndefined, JStr ''exponential'', JStr ''linear''} then
        Inl (new_ValidationError
          ''retry_config.backoffType must be either \"exponential\" or \"linear\"''
          (JObj [(''field'', JStr ''retry_config.backoffType''),
                 (''value'', own_property kvs ''backoffType'')]))
      else Inr ())" for kvs
    by (simp add: validateRetryConfig_def and_then_def maxRetries_range backoffMs_range)
  have a: "validateRetryConfig JNull = Inr () \<and> validateRetryConfig JUndefined = Inr ()"
    by (simp add: validateRetryConfig_def)
  have b: "1 \<le> m \<and> m \<le> 10 \<and> 100 \<le> b \<and> b \<le> 5000 \<and> t \<in> {''exponential'', ''linear''} \<longrightarrow>
    validateRetryConfig (JObj [(''maxRetries'', JNum (Fin (rat_of_int m))),
      (''backoffMs'', JNum (Fin (rat_of_int b))), (''backoffType'', JStr t)]) = Inr ()"
    unfolding unfold by (auto simp: own_property_def)
  show ?thesis
    using a b by (simp add: unfold new_ValidationError_def)
qed


theorem validateRetryConfig_contract_witness:
  "validateRetryConfig (JObj [(''maxRetries'', JNum (Fin 0))]) =
     Inl (new_ValidationError ''retry_config.maxRetries must be an integer between 1 and 10''
       (JObj [(''field'', JStr ''retry_config.maxRetries''), (''value'', JNum (Fin 0))])) \<and>
   validateRetryConfig (JObj [(''maxRetries'', JNum (Fin 11))]) =
     Inl (new_ValidationError ''retry_config.maxRetries must be an integer between 1 and 10''
       (JObj [(''field'', JStr ''retry_config.maxRetries''), (''value'', JNum (Fin 11))])) \<and>
   validateRetryConfig (JObj [(''maxRetries'', JNum (Fin (11 / 2)))]) =
     Inl (new_ValidationError ''retry_config.maxRetries must be an integer between 1 and 10''
       (JObj [(''field'', JStr ''retry_config.maxRetries''), (''value'', JNum (Fin (11 / 2)))])) \<and>
   validateRetryConfig (JObj [(''backoffMs'', JNum (Fin 99))]) =
     Inl (new_ValidationError ''retry_config.backoffMs must be an integer between 100 and 5000''
       (JObj [(''field'', JStr ''retry_config.backoffMs''), (''value'', JNum (Fin 99))])) \<and>
   validateRetryConfig (JObj [(''backoffMs'', JNum (Fin 5001))]) =
     Inl (new_ValidationError ''retry_config.backoffMs must be an integer between 100 and 5000''
       (JObj [(''field'', JStr ''retry_config.backoffMs''), (''value'', JNum (Fin 5001))])) \<and>
   validateRetryConfig (JObj [(''backoffType'', JStr ''invalid'')]) =
     Inl (new_ValidationError
       ''retry_config.backoffType must be either \"exponential\" or \"linear\"''
       (JObj [(''field'', JStr ''retry_config.backoffType''), (''value'', JStr ''invalid'')])) \<and>
   validateRetryConfig (JObj [(''maxRetries'', JNum (Fin 3))]) = Inr () \<and>
   validateRetryConfig (JObj []) = Inr () \<and>
   validateRetryConfig (JObj [(''maxRetries'', JNum (Fin (rat_of_int 10))),
      (''backoffMs'', JNum (Fin (rat_of_int 100))), (''backoffType'', JStr ''linear'')]) = Inr ()"
  using validateRetryConfig_contract [of "[(''maxRetries'', JNum (Fin 0))]" 10 100 "''linear''"]
    validateRetryConfig_contract [of "[(''maxRetries'', JNum (Fin 11))]" 10 100 "''linear''"]
    validateRetryConfig_contract [of "[(''maxRetries'', JNum (Fin (11 / 2)))]" 10 100 "''linear''"]
    validateRetryConfig_contract [of "[(''backoffMs'', JNum (Fin 99))]" 10 100 "''linear''"]
    validateRetryConfig_contract [of "[(''backoffMs'', JNum (Fin 5001))]" 10 100 "''linear''"]
    validateRetryConfig_contract [of "[(''backoffType'', JStr ''invalid'')]" 10 100 "''linear''"]
    validateRetryConfig_contract [of "[(''maxRetries'', JNum (Fin 3))]" 10 100 "''linear''"]
    validateRetryConfig_contract [of "[]" 10 100 "''linear''"]
  by (simp add: own_property_def JNum_in_integer_range)

section \<open>The scheduled time\<close>

lemma validateScheduledAt_throws_ValidationError:
  "validateScheduledAt rt v = Inl e \<Longrightarrow> is_ValidationError e"
  by (cases v)
     (auto simp: validateScheduledAt_def new_ValidationError_def Let_def
           split: if_splits option.splits)

text \<open>
  Claim C6 says that the failure for a time that is not in the future carries the
  offending raw value. The code puts the trimmed string there: for an input with a
  leading space the value carried is not the input.
\<close>

theorem past_failure_value_not_raw:
  "validateScheduledAt example_runtime (JStr '' 2020-01-01T00:00:00.000Z'') =
     Inl (new_ValidationError
       ''scheduled_at must be in the future. Received: \"2020-01-01T00:00:00.000Z\"''
       (JObj [(''field'', JStr ''scheduled_at''), (''value'', JStr ''2020-01-01T00:00:00.000Z''),
              (''now'', JStr ''2026-01-01T00:00:00.000Z'')])) \<and>
   JStr ''2020-01-01T00:00:00.000Z'' \<noteq> JStr '' 2020-01-01T00:00:00.000Z''"
  by (simp add: validateScheduledAt_def example_defs trim_def isWhiteSpace_def)

text \<open>
  C6, amended: \<^verbatim>\<open>validateScheduledAt\<close> throws a ValidationError for an input that is
  empty, is blank after trimming, does not parse as an instant, or parses as an instant
  equal to or earlier than the current instant; an instant strictly later than the
  current one passes; the failure for a time that is not in the future carries the
  field name, the trimmed input string and the current instant as an ISO string.
  (An input that is not a string is rejected as well.)
\<close>

theorem validateScheduledAt_contract:
  "(typeof v \<noteq> ''string'' \<longrightarrow> isl (validateScheduledAt rt v)) \<and>
   (s = [] \<or> trim s = [] \<longrightarrow> isl (validateScheduledAt rt (JStr s))) \<and>
   (Date_parse rt (trim s) = None \<longrightarrow> isl (validateScheduledAt rt (JStr s))) \<and>
   (trim s \<noteq> [] \<and> Date_parse rt (trim s) = Some d \<and> d \<le> Date_now rt \<longrightarrow>
      validateScheduledAt rt (JStr s) =
        Inl (new_ValidationError
          (''scheduled_at must be in the future. Received: \"'' @ trim s @ ''\"'')
          (JObj [(''field'', JStr ''scheduled_at''), (''value'', JStr (trim s)),
                 (''now'', JStr (toISOString rt (Date_now rt)))]))) \<and>
   (trim s \<noteq> [] \<and> Date_parse rt (trim s) = Some d \<and> Date_now rt < d \<longrightarrow>
      validateScheduledAt rt (JStr s) = Inr ()) \<and>
   (\<forall>e. validateScheduledAt rt v = Inl e \<longrightarrow> is_ValidationError e)"
proof -
  have "trim s \<noteq> [] \<Longrightarrow> s \<noteq> []" by auto
  then show ?thesis
    using validateScheduledAt_throws_ValidationError [of rt v]
    by (auto simp: validateScheduledAt_def Let_def)
qed

theorem validateScheduledAt_contract_witness:
  "isl (validateScheduledAt example_runtime (JNum (Fin 5))) \<and>
   isl (validateScheduledAt example_runtime (JStr [])) \<and>
   isl (validateScheduledAt example_runtime (JStr ''   '')) \<and>
   isl (validateScheduledAt example_runtime (JStr ''not-a-date'')) \<and>
   validateScheduledAt example_runtime (JStr ''2026-01-01T00:00:00.000Z'') =
     Inl (new_ValidationError
       ''scheduled_at must be in the future. Received: \"2026-01-01T00:00:00.000Z\"''
       (JObj [(''field'', JStr ''scheduled_at''), (''value'', JStr ''2026-01-01T00:00:00.000Z''),
              (''now'', JStr ''2026-01-01T00:00:00.000Z'')])) \<and>
   validateScheduledAt example_runtime (JStr ''2020-01-01T00:00:00.000Z '') =
     Inl (new_ValidationError
       ''scheduled_at must be in the future. Received: \"2020-01-01T00:00:00.000Z\"''
       (JObj [(''field'', JStr ''scheduled_at''), (''value'', JStr ''2020-01-01T00:00:00.000Z''),
              (''now'', JStr ''2026-01-01T00:00:00.000Z'')])) \<and>
   validateScheduledAt example_runtime (JStr ''2030-01-01T00:00:00.000Z'') = Inr ()"
  using
    validateScheduledAt_contract [where v = "JNum (Fin 5)" and rt = example_runtime and s = "[]"]
    validateScheduledAt_contract [where v = JNull and rt = example_runtime and s = "''   ''"]
    validateScheduledAt_contract [where v = JNull and rt = example_runtime
      and s = "''not-a-date''"]
    validateScheduledAt_contract [where v = JNull and rt = example_runtime
      and s = "''2026-01-01T00:00:00.000Z''" and d = 1767225600000]
    validateScheduledAt_contract [where v = JNull and rt = example_runtime
      and s = "''2020-01-01T00:00:00.000Z ''" and d = 1577836800000]
    validateScheduledAt_contract [where v = JNull and rt = example_runtime
      and s = "''2030-01-01T00:00:00.000Z''" and d = 1893456000000]
  by (simp add: example_defs trim_def isWhiteSpace_def)

section \<open>The validators throw ValidationErrors only\<close>







section \<open>The HTTP method\<close>
























section \<open>The order of validation in events.create\<close>





section \<open>The transport's errors\<close>

lemma get_prop_opt_Inr: "\<exists>x. get_prop_opt v k = Inr x"
  by (cases v) (auto simp: get_prop_opt_def nullish_def)

lemma get_prop_Inr: "v \<noteq> JNull \<Longrightarrow> v \<noteq> JUndefined \<Longrightarrow> \<exists>x. get_prop v k = Inr x"
  by (cases v) auto

text \<open>
  For a body other than \<^verbatim>\<open>null\<close> whose error message can be converted to a string,
  the status decides the class of the error.
\<close>

lemma template_or_else:
  "\<not> isl (template rt msg) \<Longrightarrow> \<exists>s. template rt (or_else msg (JStr d)) = Inr s"
  by (cases "template rt msg") (simp_all add: or_else_def)

lemma handleError_class:
  assumes "errorData \<noteq> JNull" "errorData \<noteq> JUndefined"
    and "\<And>err msg. get_prop errorData ''error'' = Inr err \<Longrightarrow>
           get_prop_opt err ''message'' = Inr msg \<Longrightarrow> \<not> isl (template rt msg)"
  shows "\<exists>t e. handleError rt sc errorData = Inl t \<and> as_CueyError t = Some e \<and>
     name e =
       (if sc = 401 then ''UnauthorizedError''
        else if sc = 404 then ''NotFoundError''
        else if sc = 400 then
          (if (case get_prop errorData ''error'' of
                 Inr err \<Rightarrow> get_prop_opt err ''code'' = Inr (JStr ''VALIDATION_ERROR'')
               | Inl x \<Rightarrow> False)
           then ''ValidationError'' else ''BadRequestError'')
        else ''InternalServerError'')"
proof -
  from get_prop_Inr [OF assms(1,2)] obtain err where e: "get_prop errorData ''error'' = Inr err"
    by blast
  obtain msg where m: "get_prop_opt err ''message'' = Inr msg"
    using get_prop_opt_Inr by blast
  obtain det where d: "get_prop_opt err ''details'' = Inr det"
    using get_prop_opt_Inr by blast
  obtain c where c: "get_prop_opt err ''code'' = Inr c"
    using get_prop_opt_Inr by blast
  note t = template_or_else [OF assms(3) [OF e m]]
  obtain s1 where s1:
    "template rt (or_else msg (JStr ''Unauthorized. Invalid or missing API key.'')) = Inr s1"
    using t by blast
  obtain s2 where s2: "template rt (or_else msg (JStr ''Resource not found.'')) = Inr s2"
    using t by blast
  obtain s3 where s3: "template rt (or_else msg (JStr ''Validation error'')) = Inr s3"
    using t by blast
  obtain s4 where s4: "template rt (or_else msg (JStr ''Bad request'')) = Inr s4"
    using t by blast
  obtain s5 where s5:
    "template rt (or_else msg (JStr ''An internal server error occurred.'')) = Inr s5"
    using t by blast
  show ?thesis
    by (simp add: handleError_def e m d c s1 s2 s3 s4 s5 new_UnauthorizedError_def
          new_NotFoundError_def new_ValidationError_def new_BadRequestError_def
          new_InternalServerError_def)
qed

lemma parse_body_failure:
  assumes "content_type response = Some contentType"
    and "includes_str contentType ''application/json''"
    and "body_json response = Inl rejected"
  shows "\<exists>t e. parse_body response = Inl t \<and> as_CueyError t = Some e \<and>
    name e = ''InternalServerError''"
  using assms by (simp add: parse_body_def new_InternalServerError_def)

lemma unconvertible_message_example:
  "HttpClient_request
     (example_runtime\<lparr>fetch := (\<lambda>req. Inr \<lparr>status = 401,
         content_type = Some ''application/json'',
         body_json = Inr (JObj [(''error'',
           JObj [(''message'', JObj [(''toString'', JNull)])])]),
         body_text = []\<rparr>)\<rparr>)
     example_http ''/api/v1/events''
     \<lparr>opt_method = Some ''GET'', opt_body = JUndefined, opt_headers = None\<rparr> = Inl TypeError"
  by (simp add: HttpClient_request_def parse_body_def ok_def handleError_def example_defs
        startsWith_def get_prop_opt_def nullish_def own_property_def or_else_def)

text \<open>
  Claim C8 says that every response that is not 2xx makes the transport throw a typed
  error chosen by the status. \<^verbatim>\<open>handleError\<close> reads \<^verbatim>\<open>errorData.error\<close> without
  a guard on \<^verbatim>\<open>errorData\<close>: when the body of the response is the JSON value
  \<^verbatim>\<open>null\<close>, that read throws a TypeError, which is what the caller gets. For every
  other body whose error message can be converted to a string, the class of the error
  is the one the claim gives (lemma \<open>handleError_class\<close>), and a JSON body that does
  not parse gives an InternalServerError (lemma \<open>parse_body_failure\<close>). A body whose
  error message is an object that cannot be converted to a string, such as
  \<^verbatim>\<open>{"error": {"message": {"toString": null}}}\<close>, is a second input on which the
  caller gets a TypeError (lemma \<open>unconvertible_message_example\<close>).
\<close>

theorem null_error_body_raises_TypeError:
  "handleError rt status_code JNull = Inl TypeError \<and>
   HttpClient_request
     (example_runtime\<lparr>fetch := (\<lambda>req. Inr \<lparr>status = 401,
         content_type = Some ''application/json'', body_json = Inr JNull,
         body_text = ''null''\<rparr>)\<rparr>)
     example_http ''/api/v1/events''
     \<lparr>opt_method = Some ''GET'', opt_body = JUndefined, opt_headers = None\<rparr> = Inl TypeError"
  by (simp add: HttpClient_request_def parse_body_def ok_def handleError_def example_defs
        startsWith_def)

text \<open>
  Two responses with other bodies: a 401 with the API's error envelope, and a 402 with a
  plain-text body, a status the client does not map.
\<close>

lemma error_envelope_example:
  "HttpClient_request
     (example_runtime\<lparr>fetch := (\<lambda>req. Inr \<lparr>status = 401,
         content_type = Some ''application/json'',
         body_json = Inr (JObj [(''error'', JObj [(''message'', JStr ''Invalid API key''),
                                                  (''code'', JStr ''UNAUTHORIZED'')])]),
         body_text = []\<rparr>)\<rparr>)
     example_http ''/api/v1/events''
     \<lparr>opt_method = Some ''GET'', opt_body = JUndefined, opt_headers = None\<rparr> =
   Inl (new_UnauthorizedError ''Invalid API key'' JUndefined)"
  by (simp add: HttpClient_request_def parse_body_def ok_def handleError_def example_defs
        startsWith_def get_prop_opt_def nullish_def own_property_def or_else_def)

lemma unmapped_status_example:
  "HttpClient_request
     (example_runtime\<lparr>fetch := (\<lambda>req. Inr \<lparr>status = 402,
         content_type = Some ''text/plain'', body_json = Inl RejectedOther,
         body_text = ''Payment Required''\<rparr>)\<rparr>)
     example_http ''/api/v1/events''
     \<lparr>opt_method = Some ''GET'', opt_body = JUndefined, opt_headers = None\<rparr> =
   Inl (new_InternalServerError ''Unexpected error: 402'' JUndefined)"
  by (simp add: HttpClient_request_def parse_body_def ok_def handleError_def example_defs
        startsWith_def get_prop_opt_def nullish_def string_of_nat.simps)

section \<open>The facade\<close>

lemma first_truthy_left: "a = Some k \<Longrightarrow> k \<noteq> [] \<Longrightarrow> first_truthy a b = Some k"
  by (simp add: first_truthy_def truthy_string_def)

lemma first_truthy_right:
  "\<not> truthy_string a \<Longrightarrow> b = Some k \<Longrightarrow> k \<noteq> [] \<Longrightarrow> first_truthy a b = Some k"
  by (simp add: first_truthy_def truthy_string_def)

lemma first_truthy_none:
  "\<not> truthy_string a \<Longrightarrow> \<not> truthy_string b \<Longrightarrow> first_truthy a b = None"
  by (simp add: first_truthy_def)

lemma Cuey_constructor_Some:
  "Cuey_constructor rt0 (Some config) = Inr c \<Longrightarrow>
   c = \<lparr>crons = \<lparr>http = \<lparr>getApiKey = Cuey_getApiKey config\<rparr>,
               webhookBaseUrl = first_truthy (baseUrl config)
                 (process_env (global_process rt0) ''CUEY_BASE_URL'')\<rparr>,
        events = \<lparr>http = \<lparr>getApiKey = Cuey_getApiKey config\<rparr>,
               webhookBaseUrl = first_truthy (baseUrl config)
                 (process_env (global_process rt0) ''CUEY_BASE_URL'')\<rparr>,
        cuey_http = \<lparr>getApiKey = Cuey_getApiKey config\<rparr>,
        cuey_webhookBaseUrl = first_truthy (baseUrl config)
          (process_env (global_process rt0) ''CUEY_BASE_URL'')\<rparr>"
  by (simp add: Cuey_constructor_def Let_def)

lemma Cuey_getApiKey_missing:
  "\<not> truthy_string (apiKey config) \<Longrightarrow>
   \<not> truthy_string (process_env (global_process rt) ''CUEY_API_KEY'') \<Longrightarrow>
   Cuey_getApiKey config rt = Inl (Error
     ''API key is required. Provide it via config.apiKey or set the CUEY_API_KEY environment variable.'')"
  by (simp add: Cuey_getApiKey_def first_truthy_none)

lemma HttpClient_request_no_key:
  "getApiKey h rt = Inl e \<Longrightarrow> HttpClient_request rt h path options = Inl e"
  by (simp add: HttpClient_request_def)

text \<open>
  Claim C9: the constructor of \<^verbatim>\<open>Cuey\<close> returns for every configuration, the empty
  one and the omitted one included. The API key is resolved when \<^verbatim>\<open>getApiKey\<close> is
  called, from the configuration and else from the environment as it is then (\<open>rt\<close>);
  with neither, that call, and so every request, fails with the error
  \<^verbatim>\<open>API key is required\<close>. The base URL is resolved by the constructor, from the
  configuration and else from the environment as it is at construction (\<open>rt0\<close>), else
  it is \<^verbatim>\<open>undefined\<close>. A value is a non-empty string.
\<close>

theorem Cuey_constructor_lazy_key_eager_base:
  "\<not> isl (Cuey_constructor rt0 config_arg) \<and>
   Cuey_constructor rt0 None = Cuey_constructor rt0 (Some \<lparr>baseUrl = None, apiKey = None\<rparr>) \<and>
   (Cuey_constructor rt0 (Some config) = Inr c \<longrightarrow>
      http (events c) = cuey_http c \<and> http (crons c) = cuey_http c \<and>
      webhookBaseUrl (events c) = cuey_webhookBaseUrl c \<and>
      webhookBaseUrl (crons c) = cuey_webhookBaseUrl c \<and>
      (apiKey config = Some k \<and> k \<noteq> [] \<longrightarrow> getApiKey (cuey_http c) rt = Inr k) \<and>
      (\<not> truthy_string (apiKey config) \<and>
       process_env (global_process rt) ''CUEY_API_KEY'' = Some k \<and> k \<noteq> [] \<longrightarrow>
         getApiKey (cuey_http c) rt = Inr k) \<and>
      (\<not> truthy_string (apiKey config) \<and>
       \<not> truthy_string (process_env (global_process rt) ''CUEY_API_KEY'') \<longrightarrow>
         getApiKey (cuey_http c) rt = Inl (Error
           ''API key is required. Provide it via config.apiKey or set the CUEY_API_KEY environment variable.'') \<and>
         HttpClient_request rt (cuey_http c) path options = Inl (Error
           ''API key is required. Provide it via config.apiKey or set the CUEY_API_KEY environment variable.'')) \<and>
      (baseUrl config = Some b \<and> b \<noteq> [] \<longrightarrow> cuey_webhookBaseUrl c = Some b) \<and>
      (\<not> truthy_string (baseUrl config) \<and>
       process_env (global_process rt0) ''CUEY_BASE_URL'' = Some b \<and> b \<noteq> [] \<longrightarrow>
         cuey_webhookBaseUrl c = Some b) \<and>
      (\<not> truthy_string (baseUrl config) \<and>
       \<not> truthy_string (process_env (global_process rt0) ''CUEY_BASE_URL'') \<longrightarrow>
         cuey_webhookBaseUrl c = None))"
proof (intro conjI impI)
  show "\<not> isl (Cuey_constructor rt0 config_arg)"
    by (simp add: Cuey_constructor_def Let_def)
  show "Cuey_constructor rt0 None =
      Cuey_constructor rt0 (Some \<lparr>baseUrl = None, apiKey = None\<rparr>)"
    by (simp add: Cuey_constructor_def)
next
  assume "Cuey_constructor rt0 (Some config) = Inr c"
  note c = Cuey_constructor_Some [OF this]
  show "http (events c) = cuey_http c" "http (crons c) = cuey_http c"
    "webhookBaseUrl (events c) = cuey_webhookBaseUrl c"
    "webhookBaseUrl (crons c) = cuey_webhookBaseUrl c"
    by (simp_all add: c)
  have g: "getApiKey (cuey_http c) = Cuey_getApiKey config"
    by (simp add: c)
  have w: "cuey_webhookBaseUrl c =
      first_truthy (baseUrl config) (process_env (global_process rt0) ''CUEY_BASE_URL'')"
    by (simp add: c)
  {
    assume "apiKey config = Some k \<and> k \<noteq> []"
    then show "getApiKey (cuey_http c) rt = Inr k"
      by (simp add: g Cuey_getApiKey_def first_truthy_left)
  }
  {
    assume "\<not> truthy_string (apiKey config) \<and>
       process_env (global_process rt) ''CUEY_API_KEY'' = Some k \<and> k \<noteq> []"
    then show "getApiKey (cuey_http c) rt = Inr k"
      by (simp add: g Cuey_getApiKey_def first_truthy_right)
  }
  {
    assume a: "\<not> truthy_string (apiKey config) \<and>
       \<not> truthy_string (process_env (global_process rt) ''CUEY_API_KEY'')"
    then show m: "getApiKey (cuey_http c) rt = Inl (Error
      ''API key is required. Provide it via config.apiKey or set the CUEY_API_KEY environment variable.'')"
      by (simp add: g Cuey_getApiKey_missing)
    show "HttpClient_request rt (cuey_http c) path options = Inl (Error
      ''API key is required. Provide it via config.apiKey or set the CUEY_API_KEY environment variable.'')"
      by (rule HttpClient_request_no_key [OF m])
  }
  {
    assume "baseUrl config = Some b \<and> b \<noteq> []"
    then show "cuey_webhookBaseUrl c = Some b"
      by (simp add: w first_truthy_left)
  }
  {
    assume "\<not> truthy_string (baseUrl config) \<and>
       process_env (global_process rt0) ''CUEY_BASE_URL'' = Some b \<and> b \<noteq> []"
    then show "cuey_webhookBaseUrl c = Some b"
      by (simp add: w first_truthy_right)
  }
  {
    assume "\<not> truthy_string (baseUrl config) \<and>
       \<not> truthy_string (process_env (global_process rt0) ''CUEY_BASE_URL'')"
    then show "cuey_webhookBaseUrl c = None"
      by (simp add: w first_truthy_none)
  }
qed

theorem Cuey_constructor_lazy_key_eager_base_witness:
  "(case Cuey_constructor example_runtime None of
      Inl t \<Rightarrow> False
    | Inr c \<Rightarrow>
        cuey_webhookBaseUrl c = None \<and>
        HttpClient_request example_runtime (cuey_http c) ''/api/v1/events''
          \<lparr>opt_method = Some ''GET'', opt_body = JUndefined, opt_headers = None\<rparr> =
          Inl (Error
            ''API key is required. Provide it via config.apiKey or set the CUEY_API_KEY environment variable.'') \<and>
        getApiKey (cuey_http c) example_env_runtime = Inr ''env-key'') \<and>
   (case Cuey_constructor example_env_runtime
           (Some \<lparr>baseUrl = Some ''https://example.com'', apiKey = Some ''config-key''\<rparr>) of
      Inl t \<Rightarrow> False
    | Inr c \<Rightarrow>
        cuey_webhookBaseUrl c = Some ''https://example.com'' \<and>
        webhookBaseUrl (events c) = Some ''https://example.com'' \<and>
        getApiKey (cuey_http c) example_env_runtime = Inr ''config-key'') \<and>
   (case Cuey_constructor example_env_runtime (Some \<lparr>baseUrl = None, apiKey = None\<rparr>) of
      Inl t \<Rightarrow> False
    | Inr c \<Rightarrow>
        cuey_webhookBaseUrl c = Some ''https://env.example'' \<and>
        getApiKey (cuey_http c) example_runtime =
          Inl (Error
            ''API key is required. Provide it via config.apiKey or set the CUEY_API_KEY environment variable.''))"
proof -
  have e: "Cuey_constructor example_runtime None =
      Cuey_constructor example_runtime (Some \<lparr>baseUrl = None, apiKey = None\<rparr>)"
    using Cuey_constructor_lazy_key_eager_base [where ?rt0.0 = example_runtime] by blast
  obtain c0 where c0:
    "Cuey_constructor example_runtime (Some \<lparr>baseUrl = None, apiKey = None\<rparr>) = Inr c0"
    using Cuey_constructor_lazy_key_eager_base [where ?rt0.0 = example_runtime
        and config_arg = "Some \<lparr>baseUrl = None, apiKey = None\<rparr>"]
    by (cases "Cuey_constructor example_runtime (Some \<lparr>baseUrl = None, apiKey = None\<rparr>)") auto
  obtain c1 where c1:
    "Cuey_constructor example_env_runtime
       (Some \<lparr>baseUrl = Some ''https://example.com'', apiKey = Some ''config-key''\<rparr>) = Inr c1"
    using Cuey_constructor_lazy_key_eager_base [where ?rt0.0 = example_env_runtime
        and config_arg = "Some \<lparr>baseUrl = Some ''https://example.com'',
          apiKey = Some ''config-key''\<rparr>"]
    by (cases "Cuey_constructor example_env_runtime
       (Some \<lparr>baseUrl = Some ''https://example.com'', apiKey = Some ''config-key''\<rparr>)") auto
  obtain c2 where c2:
    "Cuey_constructor example_env_runtime (Some \<lparr>baseUrl = None, apiKey = None\<rparr>) = Inr c2"
    using Cuey_constructor_lazy_key_eager_base [where ?rt0.0 = example_env_runtime
        and config_arg = "Some \<lparr>baseUrl = None, apiKey = None\<rparr>"]
    by (cases "Cuey_constructor example_env_runtime (Some \<lparr>baseUrl = None, apiKey = None\<rparr>)")
       auto
  have p0: "cuey_webhookBaseUrl c0 = None \<and>
      HttpClient_request example_runtime (cuey_http c0) ''/api/v1/events''
          \<lparr>opt_method = Some ''GET'', opt_body = JUndefined, opt_headers = None\<rparr> =
          Inl (Error
            ''API key is required. Provide it via config.apiKey or set the CUEY_API_KEY environment variable.'')"
    using c0 Cuey_constructor_lazy_key_eager_base [where ?rt0.0 = example_runtime
        and config = "\<lparr>baseUrl = None, apiKey = None\<rparr>" and c = c0
        and rt = example_runtime and path = "''/api/v1/events''"
        and options = "\<lparr>opt_method = Some ''GET'', opt_body = JUndefined, opt_headers = None\<rparr>"]
    by (simp add: truthy_string_def process_env_def example_defs)
  have p0': "getApiKey (cuey_http c0) example_env_runtime = Inr ''env-key''"
    using c0 Cuey_constructor_lazy_key_eager_base [where ?rt0.0 = example_runtime
        and config = "\<lparr>baseUrl = None, apiKey = None\<rparr>" and c = c0
        and rt = example_env_runtime and k = "''env-key''"]
    by (simp add: truthy_string_def process_env_def example_defs)
  have p1: "cuey_webhookBaseUrl c1 = Some ''https://example.com'' \<and>
        webhookBaseUrl (events c1) = Some ''https://example.com'' \<and>
        getApiKey (cuey_http c1) example_env_runtime = Inr ''config-key''"
    using c1 Cuey_constructor_lazy_key_eager_base [where ?rt0.0 = example_env_runtime
        and config = "\<lparr>baseUrl = Some ''https://example.com'', apiKey = Some ''config-key''\<rparr>"
        and c = c1 and rt = example_env_runtime and k = "''config-key''"
        and b = "''https://example.com''"]
    by simp
  have p2: "cuey_webhookBaseUrl c2 = Some ''https://env.example'' \<and>
        getApiKey (cuey_http c2) example_runtime =
          Inl (Error
            ''API key is required. Provide it via config.apiKey or set the CUEY_API_KEY environment variable.'')"
    using c2 Cuey_constructor_lazy_key_eager_base [where ?rt0.0 = example_env_runtime
        and config = "\<lparr>baseUrl = None, apiKey = None\<rparr>" and c = c2
        and rt = example_runtime and b = "''https://env.example''"]
    by (simp add: truthy_string_def process_env_def example_defs)
  show ?thesis
    using p0 p0' p1 p2 by (simp add: e c0 c1 c2)
qed

text \<open>
  Claim C10: with no API key in the configuration or the environment, what a call such as
  \<^verbatim>\<open>events.list\<close> throws is a built-in \<^verbatim>\<open>Error\<close> whose message starts with
  \<^verbatim>\<open>API key is required\<close>; it is no \<^verbatim>\<open>CueyError\<close>, so it has neither
  \<^verbatim>\<open>code\<close> nor \<^verbatim>\<open>statusCode\<close>, and it is no \<^verbatim>\<open>UnauthorizedError\<close>.
\<close>

theorem missing_api_key_error_is_untyped:
  "Cuey_constructor rt0 (Some config) = Inr c \<and>
   \<not> truthy_string (apiKey config) \<and>
   \<not> truthy_string (process_env (global_process rt) ''CUEY_API_KEY'') \<longrightarrow>
     EventsResource_list rt (events c) params = Inl (Error
       ''API key is required. Provide it via config.apiKey or set the CUEY_API_KEY environment variable.'') \<and>
     startsWith
       ''API key is required. Provide it via config.apiKey or set the CUEY_API_KEY environment variable.''
       ''API key is required'' \<and>
     \<not> is_CueyError (Error
       ''API key is required. Provide it via config.apiKey or set the CUEY_API_KEY environment variable.'') \<and>
     as_CueyError (Error
       ''API key is required. Provide it via config.apiKey or set the CUEY_API_KEY environment variable.'') = None \<and>
     (\<forall>e. Error
       ''API key is required. Provide it via config.apiKey or set the CUEY_API_KEY environment variable.''
       \<noteq> UnauthorizedError e)"
proof (intro impI)
  assume a: "Cuey_constructor rt0 (Some config) = Inr c \<and>
   \<not> truthy_string (apiKey config) \<and>
   \<not> truthy_string (process_env (global_process rt) ''CUEY_API_KEY'')"
  then have g: "getApiKey (http (events c)) = Cuey_getApiKey config"
    using Cuey_constructor_Some [of rt0 config c] by simp
  have "getApiKey (http (events c)) rt = Inl (Error
      ''API key is required. Provide it via config.apiKey or set the CUEY_API_KEY environment variable.'')"
    using a by (simp add: g Cuey_getApiKey_missing)
  then have "EventsResource_list rt (events c) params = Inl (Error
      ''API key is required. Provide it via config.apiKey or set the CUEY_API_KEY environment variable.'')"
    by (simp add: EventsResource_list_def HttpClient_get_def HttpClient_request_no_key Let_def)
  then show "EventsResource_list rt (events c) params = Inl (Error
       ''API key is required. Provide it via config.apiKey or set the CUEY_API_KEY environment variable.'') \<and>
     startsWith
       ''API key is required. Provide it via config.apiKey or set the CUEY_API_KEY environment variable.''
       ''API key is required'' \<and>
     \<not> is_CueyError (Error
       ''API key is required. Provide it via config.apiKey or set the CUEY_API_KEY environment variable.'') \<and>
     as_CueyError (Error
       ''API key is required. Provide it via config.apiKey or set the CUEY_API_KEY environment variable.'') = None \<and>
     (\<forall>e. Error
       ''API key is required. Provide it via config.apiKey or set the CUEY_API_KEY environment variable.''
       \<noteq> UnauthorizedError e)"
    by (simp add: startsWith_def)
qed
theorem missing_api_key_error_is_untyped_witness:
  "\<not> truthy_string (apiKey \<lparr>baseUrl = None, apiKey = None\<rparr>) \<and>
   \<not> truthy_string (process_env (global_process example_runtime) ''CUEY_API_KEY'') \<and>
   (case Cuey_constructor example_runtime (Some \<lparr>baseUrl = None, apiKey = None\<rparr>) of
      Inl t \<Rightarrow> False
    | Inr c \<Rightarrow>
        EventsResource_list example_runtime (events c) None =
          Inl (Error
            ''API key is required. Provide it via config.apiKey or set the CUEY_API_KEY environment variable.''))"
proof -
  have h1: "\<not> truthy_string (apiKey \<lparr>baseUrl = None, apiKey = None\<rparr>)"
    by (simp add: truthy_string_def)
  have h2: "\<not> truthy_string (process_env (global_process example_runtime) ''CUEY_API_KEY'')"
    by (simp add: truthy_string_def process_env_def example_defs)
  obtain c where c:
    "Cuey_constructor example_runtime (Some \<lparr>baseUrl = None, apiKey = None\<rparr>) = Inr c"
    by (simp add: Cuey_constructor_def Let_def)
  from c h1 h2 missing_api_key_error_is_untyped [where ?rt0.0 = example_runtime
      and config = "\<lparr>baseUrl = None, apiKey = None\<rparr>" and c = c and rt = example_runtime
      and params = None]
  show ?thesis by simp
qed

end
